theory Spec2Isabelle
  imports Complex_Main "HOL-Library.Sublist"
begin

section \<open>The agent collaborator: messages, content blocks and the message stream\<close>

text \<open>
  A value thrown inside a \<^verbatim>\<open>try\<close> block. The handlers of the harness only ask
  \<^verbatim>\<open>error instanceof Error ? error.message : 'Unknown error'\<close>, so a thrown value
  is either an \<^verbatim>\<open>Error\<close> object with its message or anything else.
\<close>

datatype thrown = ErrorObject string | NonError

fun error_message :: "thrown \<Rightarrow> string" where
  "error_message (ErrorObject m) = m"
| "error_message NonError = ''Unknown error''"

text \<open>
  The argument of a tool invocation has the TypeScript type \<^verbatim>\<open>unknown\<close>. The
  harness inspects it with \<^verbatim>\<open>typeof\<close>, a null test, the \<^verbatim>\<open>in\<close> operator and
  \<^verbatim>\<open>String(...)\<close>; the fragment of JavaScript values below is enough for all four
  (numbers and arrays are left out). An object is an association list of its properties.
\<close>

datatype jsvalue =
    JString string
  | JBool bool
  | JNull
  | JUndefined
  | JObject "(string \<times> jsvalue) list"

fun js_String :: "jsvalue \<Rightarrow> string" where
  "js_String (JString s) = s"
| "js_String (JBool b) = (if b then ''true'' else ''false'')"
| "js_String JNull = ''null''"
| "js_String JUndefined = ''undefined''"
| "js_String (JObject fields) = ''[object Object]''"

text \<open>
  \<^verbatim>\<open>typeof block.input === 'object' && block.input !== null && 'skill' in block.input\<close>:
  the value of the \<^verbatim>\<open>skill\<close> property when the test succeeds.
\<close>

fun skill_argument :: "jsvalue \<Rightarrow> jsvalue option" where
  "skill_argument (JObject fields) = map_of fields ''skill''"
| "skill_argument v = None"

datatype block =
    TextBlock string
  | ToolUse string jsvalue
  | OtherBlock string

text \<open>\<^verbatim>\<open>message.message.content\<close> is tested with \<^verbatim>\<open>Array.isArray\<close> before it is scanned.\<close>

datatype content = ContentArray "block list" | ContentNotArray

text \<open>
  The usage record of an assistant message. Every counter is read as
  \<^verbatim>\<open>msg_usage.x || 0\<close>, so a counter may be absent.
\<close>

record api_usage =
  usage_input_tokens :: "int option"
  usage_output_tokens :: "int option"
  cache_creation_input_tokens :: "int option"
  cache_read_input_tokens :: "int option"
  usage_thinking_tokens :: "int option"

text \<open>
  A message is an assistant message, with an optional usage record and its content, or a
  message of another kind (\<^verbatim>\<open>system\<close>, \<^verbatim>\<open>result\<close>, ...), of which only the type tag
  is read; the tag of \<open>OtherMessage\<close> is not \<^verbatim>\<open>assistant\<close>.
\<close>

datatype message =
    AssistantMessage "api_usage option" content
  | OtherMessage string

fun message_type :: "message \<Rightarrow> string" where
  "message_type (AssistantMessage u c) = ''assistant''"
| "message_type (OtherMessage t) = t"

text \<open>
  The lazy, single-pass sequence returned by \<^verbatim>\<open>query(...)\<close>: each step of the
  \<^verbatim>\<open>for await\<close> loop either gets the next message, finds the sequence finished, or
  has an error raised. A call that fails before any message is \<open>Raise e\<close>.
\<close>

datatype message_stream =
    Done
  | Yield message message_stream
  | Raise thrown

section \<open>Test cases, usage, results and the trace\<close>

datatype skill =
    Svelte5Runes
  | SveltekitDataFlow
  | SveltekitStructure
  | SveltekitRemoteFunctions

fun skill_name :: "skill \<Rightarrow> string" where
  "skill_name Svelte5Runes = ''svelte5-runes''"
| "skill_name SveltekitDataFlow = ''sveltekit-data-flow''"
| "skill_name SveltekitStructure = ''sveltekit-structure''"
| "skill_name SveltekitRemoteFunctions = ''sveltekit-remote-functions''"

text \<open>
  The two validation schemas. \<open>expected_skill\<close> and \<open>skill\<close> are unions of four
  literals, so the type admits exactly the validated inputs.
\<close>

record test_case =
  test_case_id :: string
  query :: string
  description :: string
  model :: "string option"

record activation_test_case = test_case +
  expected_skill :: skill
  should_activate :: bool

record quality_test_case = test_case +
  skill :: skill
  expected_facts :: "string list option"
  must_not_contain :: "string list option"

text \<open>\<^verbatim>\<open>UsageData\<close>, and the \<^verbatim>\<open>metrics\<close> object of a result, which extends it.\<close>

record usage_data =
  input_tokens :: int
  output_tokens :: int
  cache_creation_tokens :: int
  cache_read_tokens :: int
  thinking_tokens :: "int option"

record metrics = usage_data +
  total_tokens :: int
  latency_ms :: int
  estimated_cost_usd :: rat

text \<open>
  The lines pushed to \<^verbatim>\<open>logs\<close>, as events: the text of a line is a template over
  the values kept here, and the prefix (\<^verbatim>\<open>[ACTIVATION TEST]\<close> or
  \<^verbatim>\<open>[QUALITY TEST]\<close>) follows from the function that wrote it.
\<close>

datatype log_entry =
    LogStarting string
  | LogUsingModel string
  | LogQuery string
  | LogCallingSdk
  | LogProcessing
  | LogMessageType string
  | LogToolUse string
  | LogSkillActivated string
  | LogTextResponse nat
  | LogActivationOutcome string string "string option" bool
  | LogQualityOutcome string bool
  | LogMissingFacts "string list"
  | LogForbiddenContent "string list"
  | LogMetrics int int rat
  | LogError string string

record test_result =
  test_id :: string
  passed :: bool
  error :: "string option"
  logs :: "log_entry list"
  result_metrics :: "metrics option"

record activation_test_result = test_result +
  result_expected_skill :: string
  activated_skill :: "string option"

record quality_test_result = test_result +
  missing_facts :: "string list"
  forbidden_content :: "string list"
  response_preview :: string
  response_full_text :: "string option"

text \<open>
  What the harness calls and does not define is a parameter of the model: the two
  helpers imported from \<^verbatim>\<open>./evals/metrics-tracker\<close> and
  \<^verbatim>\<open>./evals/cost-calculator\<close>, either of which may raise, and the engine's
  \<^verbatim>\<open>String.prototype.toLowerCase\<close>, whose mapping of letters is the engine's and
  not the harness's.
\<close>

record deps =
  calculate_total_tokens :: "usage_data \<Rightarrow> thrown + int"
  calculate_cost :: "usage_data \<Rightarrow> string \<Rightarrow> thrown + rat"
  toLowerCase :: "string \<Rightarrow> string"

text \<open>
  What the outside world does during one test: whether the call \<^verbatim>\<open>query(...)\<close>
  itself raises (then no stream exists), the message stream it returns otherwise, and
  the two readings of \<^verbatim>\<open>Date.now()\<close> (before the call, and when the metrics are
  computed).
\<close>

record agent_call =
  query_raises :: "thrown option"
  responses :: message_stream
  start_time :: int
  end_time :: int

section \<open>The message interpreter\<close>

definition default_model :: string where
  "default_model = ''claude-sonnet-4-5-20250929''"

text \<open>\<^verbatim>\<open>test_case.model || 'claude-sonnet-4-5-20250929'\<close>: the empty string is falsy.\<close>

fun model_or_default :: "string option \<Rightarrow> string" where
  "model_or_default None = default_model"
| "model_or_default (Some m) = (if m = [] then default_model else m)"

definition zero_usage :: usage_data where
  "zero_usage = \<lparr>input_tokens = 0, output_tokens = 0, cache_creation_tokens = 0,
     cache_read_tokens = 0, thinking_tokens = Some 0\<rparr>"

text \<open>\<^verbatim>\<open>x || 0\<close> on a counter that may be absent.\<close>

fun or_zero :: "int option \<Rightarrow> int" where
  "or_zero None = 0"
| "or_zero (Some n) = n"

definition add_usage :: "api_usage \<Rightarrow> usage_data \<Rightarrow> usage_data" where
  "add_usage mu u =
     u\<lparr>input_tokens := input_tokens u + or_zero (usage_input_tokens mu),
       output_tokens := output_tokens u + or_zero (usage_output_tokens mu),
       cache_creation_tokens := cache_creation_tokens u + or_zero (cache_creation_input_tokens mu),
       cache_read_tokens := cache_read_tokens u + or_zero (cache_read_input_tokens mu),
       thinking_tokens :=
         (if or_zero (usage_thinking_tokens mu) \<noteq> 0
          then Some (or_zero (thinking_tokens u) + or_zero (usage_thinking_tokens mu))
          else thinking_tokens u)\<rparr>"

text \<open>
  \<^verbatim>\<open>if (message.type === 'assistant' && message.message?.usage)\<close>: the usage step
  shared by both loops.
\<close>

fun extract_usage :: "message \<Rightarrow> usage_data \<Rightarrow> usage_data" where
  "extract_usage (AssistantMessage (Some mu) c) u = add_usage mu u"
| "extract_usage m u = u"

text \<open>
  The variables written by a message loop: \<^verbatim>\<open>usage\<close> and \<^verbatim>\<open>logs\<close> in both
  loops, \<^verbatim>\<open>activated_skill\<close> in the activation loop, \<^verbatim>\<open>response_text\<close> in the
  quality loop.
\<close>

record loop_state =
  usage :: usage_data
  trace :: "log_entry list"

record activation_state = loop_state +
  activated :: "string option"

record quality_state = loop_state +
  response_text :: string

text \<open>
  The inner loop over the blocks of one assistant message. Every tool invocation is
  logged; the first one named \<^verbatim>\<open>Skill\<close> whose argument has a \<^verbatim>\<open>skill\<close> property
  sets \<^verbatim>\<open>activated_skill\<close> and leaves the loop.
\<close>

fun scan_blocks :: "block list \<Rightarrow> activation_state \<Rightarrow> activation_state" where
  "scan_blocks [] s = s"
| "scan_blocks (ToolUse name input # bs) s =
     (let s1 = s\<lparr>trace := trace s @ [LogToolUse name]\<rparr>
      in if name = ''Skill'' then
           (case skill_argument input of
              Some v \<Rightarrow>
                s1\<lparr>activated := Some (js_String v),
                   trace := trace s1 @ [LogSkillActivated (js_String v)]\<rparr>
            | None \<Rightarrow> scan_blocks bs s1)
         else scan_blocks bs s1)"
| "scan_blocks (b # bs) s = scan_blocks bs s"

fun scan_content :: "content \<Rightarrow> activation_state \<Rightarrow> activation_state" where
  "scan_content (ContentArray bs) s = scan_blocks bs s"
| "scan_content ContentNotArray s = s"

text \<open>\<^verbatim>\<open>if (activated_skill)\<close>: null and the empty string are falsy.\<close>

fun truthy :: "string option \<Rightarrow> bool" where
  "truthy None = False"
| "truthy (Some s) = (s \<noteq> [])"

text \<open>
  The \<^verbatim>\<open>for await\<close> loop of \<^verbatim>\<open>test_skill_activation\<close>. It returns the error
  raised by the stream, if any, and the variables as they were when the loop was left.
\<close>

fun consume_activation ::
  "message_stream \<Rightarrow> activation_state \<Rightarrow> thrown option \<times> activation_state" where
  "consume_activation Done s = (None, s)"
| "consume_activation (Raise e) s = (Some e, s)"
| "consume_activation (Yield m rest) s =
     (let s1 = s\<lparr>trace := trace s @ [LogMessageType (message_type m)]\<rparr>;
          s2 = s1\<lparr>usage := extract_usage m (usage s1)\<rparr>
      in case m of
           AssistantMessage u c \<Rightarrow>
             (let s3 = scan_content c s2
              in if truthy (activated s3) then (None, s3) else consume_activation rest s3)
         | OtherMessage t \<Rightarrow> consume_activation rest s2)"

section \<open>test_skill_activation\<close>

text \<open>The \<^verbatim>\<open>catch\<close> block: only the log survives, with one more line.\<close>

definition activation_failure ::
  "activation_test_case \<Rightarrow> log_entry list \<Rightarrow> thrown \<Rightarrow> activation_test_result" where
  "activation_failure tc lg e =
     \<lparr>test_id = test_case_id tc, passed = False, error = Some (error_message e),
      logs = lg @ [LogError (test_case_id tc) (error_message e)],
      result_metrics = None,
      result_expected_skill = skill_name (expected_skill tc),
      activated_skill = None\<rparr>"

text \<open>The four lines logged before \<^verbatim>\<open>query(...)\<close> is called, in both functions.\<close>

definition calling_lines :: "'a test_case_scheme \<Rightarrow> log_entry list" where
  "calling_lines tc =
     [LogStarting (test_case_id tc), LogUsingModel (model_or_default (model tc)),
      LogQuery (query tc), LogCallingSdk]"

text \<open>
  The variables as the activation loop finds them: \<^verbatim>\<open>query(...)\<close> has returned and
  \<^verbatim>\<open>Processing messages...\<close> has been logged.
\<close>

definition activation_start :: "activation_test_case \<Rightarrow> activation_state" where
  "activation_start tc =
     \<lparr>usage = zero_usage, trace = calling_lines tc @ [LogProcessing], activated = None\<rparr>"

definition test_skill_activation ::
  "deps \<Rightarrow> agent_call \<Rightarrow> activation_test_case \<Rightarrow> activation_test_result" where
  "test_skill_activation d call tc =
     (let mdl = model_or_default (model tc);
          (raised, s) =
             (case query_raises call of
                Some e \<Rightarrow>
                  (Some e, \<lparr>usage = zero_usage, trace = calling_lines tc, activated = None\<rparr>)
              | None \<Rightarrow> consume_activation (responses call) (activation_start tc))
      in case raised of
           Some e \<Rightarrow> activation_failure tc (trace s) e
         | None \<Rightarrow>
             (let ok = (activated s = Some (skill_name (expected_skill tc))
                          \<and> should_activate tc);
                  latency = end_time call - start_time call
              in case calculate_total_tokens d (usage s) of
                   Inl e \<Rightarrow> activation_failure tc (trace s) e
                 | Inr toks \<Rightarrow>
                     (case calculate_cost d (usage s) mdl of
                        Inl e \<Rightarrow> activation_failure tc (trace s) e
                      | Inr cost \<Rightarrow>
                          \<lparr>test_id = test_case_id tc, passed = ok, error = None,
                           logs = trace s @
                             [LogActivationOutcome (test_case_id tc)
                                (skill_name (expected_skill tc)) (activated s) ok,
                              LogMetrics toks latency cost],
                           result_metrics = Some
                             \<lparr>input_tokens = input_tokens (usage s),
                              output_tokens = output_tokens (usage s),
                              cache_creation_tokens = cache_creation_tokens (usage s),
                              cache_read_tokens = cache_read_tokens (usage s),
                              thinking_tokens = thinking_tokens (usage s),
                              total_tokens = toks, latency_ms = latency,
                              estimated_cost_usd = cost\<rparr>,
                           result_expected_skill = skill_name (expected_skill tc),
                           activated_skill = activated s\<rparr>)))"

section \<open>test_response_quality\<close>

text \<open>
  The inner loop of the quality path: every text block is appended to
  \<^verbatim>\<open>response_text\<close> and its length is logged.
\<close>

fun collect_text :: "block list \<Rightarrow> quality_state \<Rightarrow> quality_state" where
  "collect_text [] s = s"
| "collect_text (TextBlock t # bs) s =
     collect_text bs
       (s\<lparr>response_text := response_text s @ t,
          trace := trace s @ [LogTextResponse (length t)]\<rparr>)"
| "collect_text (b # bs) s = collect_text bs s"

fun collect_content :: "content \<Rightarrow> quality_state \<Rightarrow> quality_state" where
  "collect_content (ContentArray bs) s = collect_text bs s"
| "collect_content ContentNotArray s = s"

text \<open>The \<^verbatim>\<open>for await\<close> loop of \<^verbatim>\<open>test_response_quality\<close>; it never leaves early.\<close>

fun consume_quality ::
  "message_stream \<Rightarrow> quality_state \<Rightarrow> thrown option \<times> quality_state" where
  "consume_quality Done s = (None, s)"
| "consume_quality (Raise e) s = (Some e, s)"
| "consume_quality (Yield m rest) s =
     (let s1 = s\<lparr>trace := trace s @ [LogMessageType (message_type m)]\<rparr>;
          s2 = s1\<lparr>usage := extract_usage m (usage s1)\<rparr>
      in case m of
           AssistantMessage u c \<Rightarrow> consume_quality rest (collect_content c s2)
         | OtherMessage t \<Rightarrow> consume_quality rest s2)"

text \<open>\<^verbatim>\<open>haystack.includes(needle)\<close>: the needle starts at some position of the haystack.\<close>

fun js_includes :: "string \<Rightarrow> string \<Rightarrow> bool" where
  "js_includes [] needle = (needle = [])"
| "js_includes (c # cs) needle = (prefix needle (c # cs) \<or> js_includes cs needle)"

text \<open>The two scoring loops, each pushing to its array in the order of the input list.\<close>

fun find_missing :: "deps \<Rightarrow> string \<Rightarrow> string list \<Rightarrow> string list \<Rightarrow> string list" where
  "find_missing d text [] acc = acc"
| "find_missing d text (fct # facts) acc =
     find_missing d text facts
       (if \<not> js_includes (toLowerCase d text) (toLowerCase d fct) then acc @ [fct] else acc)"

fun find_forbidden :: "deps \<Rightarrow> string \<Rightarrow> string list \<Rightarrow> string list \<Rightarrow> string list" where
  "find_forbidden d text [] acc = acc"
| "find_forbidden d text (forbidden # rest) acc =
     find_forbidden d text rest
       (if js_includes (toLowerCase d text) (toLowerCase d forbidden) then acc @ [forbidden]
        else acc)"

text \<open>\<^verbatim>\<open>if (test_case.expected_facts) { ... }\<close>: an absent list is skipped.\<close>

fun check_expected_facts :: "deps \<Rightarrow> string \<Rightarrow> string list option \<Rightarrow> string list" where
  "check_expected_facts d text None = []"
| "check_expected_facts d text (Some facts) = find_missing d text facts []"

fun check_must_not_contain :: "deps \<Rightarrow> string \<Rightarrow> string list option \<Rightarrow> string list" where
  "check_must_not_contain d text None = []"
| "check_must_not_contain d text (Some strs) = find_forbidden d text strs []"

definition quality_failure ::
  "quality_test_case \<Rightarrow> log_entry list \<Rightarrow> thrown \<Rightarrow> quality_test_result" where
  "quality_failure tc lg e =
     \<lparr>test_id = test_case_id tc, passed = False, error = Some (error_message e),
      logs = lg @ [LogError (test_case_id tc) (error_message e)],
      result_metrics = None,
      missing_facts = [], forbidden_content = [], response_preview = [],
      response_full_text = None\<rparr>"

text \<open>The variables as the quality loop finds them.\<close>

definition quality_start :: "quality_test_case \<Rightarrow> quality_state" where
  "quality_start tc =
     \<lparr>usage = zero_usage, trace = calling_lines tc @ [LogProcessing], response_text = []\<rparr>"

definition test_response_quality ::
  "deps \<Rightarrow> agent_call \<Rightarrow> quality_test_case \<Rightarrow> quality_test_result" where
  "test_response_quality d call tc =
     (let mdl = model_or_default (model tc);
          (raised, s) =
             (case query_raises call of
                Some e \<Rightarrow>
                  (Some e, \<lparr>usage = zero_usage, trace = calling_lines tc, response_text = []\<rparr>)
              | None \<Rightarrow> consume_quality (responses call) (quality_start tc))
      in case raised of
           Some e \<Rightarrow> quality_failure tc (trace s) e
         | None \<Rightarrow>
             (let missing = check_expected_facts d (response_text s) (expected_facts tc);
                  forbidden = check_must_not_contain d (response_text s) (must_not_contain tc);
                  ok = (length missing = 0 \<and> length forbidden = 0);
                  latency = end_time call - start_time call
              in case calculate_total_tokens d (usage s) of
                   Inl e \<Rightarrow> quality_failure tc (trace s) e
                 | Inr toks \<Rightarrow>
                     (case calculate_cost d (usage s) mdl of
                        Inl e \<Rightarrow> quality_failure tc (trace s) e
                      | Inr cost \<Rightarrow>
                          \<lparr>test_id = test_case_id tc, passed = ok, error = None,
                           logs = trace s @ [LogQualityOutcome (test_case_id tc) ok]
                             @ (if length missing > 0 then [LogMissingFacts missing] else [])
                             @ (if length forbidden > 0 then [LogForbiddenContent forbidden]
                                else [])
                             @ [LogMetrics toks latency cost],
                           result_metrics = Some
                             \<lparr>input_tokens = input_tokens (usage s),
                              output_tokens = output_tokens (usage s),
                              cache_creation_tokens = cache_creation_tokens (usage s),
                              cache_read_tokens = cache_read_tokens (usage s),
                              thinking_tokens = thinking_tokens (usage s),
                              total_tokens = toks, latency_ms = latency,
                              estimated_cost_usd = cost\<rparr>,
                           missing_facts = missing, forbidden_content = forbidden,
                           response_preview = take 200 (response_text s),
                           response_full_text = Some (response_text s)\<rparr>)))"

section \<open>The persistence layer\<close>

datatype test_type = Activation | Quality | AntiPattern

text \<open>
  The running totals of a batch, the values handed to \<^verbatim>\<open>update_test_run\<close>, and a
  row of \<^verbatim>\<open>test_runs\<close>, which holds them.
\<close>

record totals =
  total_input_tokens :: int
  total_output_tokens :: int
  total_cache_read_tokens :: int
  total_latency_ms :: int
  total_cost_usd :: rat

record accumulators = totals +
  passed_count :: int

record run_aggregates = totals +
  passed_tests :: int
  failed_tests :: int
  avg_latency_ms :: rat

record test_run_row = run_aggregates +
  run_id :: string
  run_timestamp :: int
  run_model :: string
  git_commit_hash :: "string option"
  total_tests :: int
  run_test_type :: test_type
  created_at :: int

text \<open>The columns shared by the two result tables; \<open>None\<close> is SQL NULL.\<close>

record result_row =
  row_id :: string
  row_run_id :: string
  row_test_id :: string
  row_query :: string
  row_passed :: int
  row_error :: "string option"
  row_test_case_source :: string
  row_session_context :: "string option"
  row_input_tokens :: "int option"
  row_output_tokens :: "int option"
  row_cache_creation_tokens :: "int option"
  row_cache_read_tokens :: "int option"
  row_thinking_tokens :: "int option"
  row_latency_ms :: "int option"
  row_estimated_cost_usd :: "rat option"
  row_created_at :: int

record activation_row = result_row +
  row_expected_skill :: string
  row_activated_skill :: "string option"
  row_should_activate :: int

record quality_row = result_row +
  row_skill :: string
  row_response_preview :: string
  row_response_full_text :: "string option"

record test_log_row =
  test_result_id :: string
  log_test_type :: test_type
  log_message :: log_entry
  log_timestamp :: int

record database =
  test_runs :: "test_run_row list"
  activation_results :: "activation_row list"
  quality_results :: "quality_row list"
  missing_facts_rows :: "(string \<times> string) list"
  forbidden_content_rows :: "(string \<times> string) list"
  test_logs :: "test_log_row list"

definition empty_database :: database where
  "empty_database = \<lparr>test_runs = [], activation_results = [], quality_results = [],
     missing_facts_rows = [], forbidden_content_rows = [], test_logs = []\<rparr>"

text \<open>
  A storage function prepares and runs its statements one after another, and any of them
  may raise. \<open>run_statements failing sts db\<close> runs the statements before the failing
  one (all of them when \<open>failing\<close> is \<open>None\<close> or beyond the last) and tells whether
  an error was raised.
\<close>

type_synonym statement = "database \<Rightarrow> database"

fun run_statements :: "nat option \<Rightarrow> statement list \<Rightarrow> database \<Rightarrow> bool \<times> database" where
  "run_statements failing [] db = (False, db)"
| "run_statements None (st # sts) db = run_statements None sts (st db)"
| "run_statements (Some 0) (st # sts) db = (True, db)"
| "run_statements (Some (Suc k)) (st # sts) db = run_statements (Some k) sts (st db)"

text \<open>
  What the outside world supplies to one storage call: the value of
  \<^verbatim>\<open>randomUUID()\<close>, the reading of \<^verbatim>\<open>Date.now()\<close> for the row, the statement
  that raises (if any) and, for the log lines, one reading of the clock per line.
\<close>

record db_env =
  new_uuid :: string
  now :: int
  failing_statement :: "nat option"

record store_env = db_env +
  log_now :: "nat \<Rightarrow> int"

text \<open>JavaScript's \<^verbatim>\<open>x || null\<close> and \<^verbatim>\<open>x || default\<close>.\<close>

definition number_or_null :: "'a::zero \<Rightarrow> 'a option" where
  "number_or_null x = (if x = 0 then None else Some x)"

fun string_or_null :: "string option \<Rightarrow> string option" where
  "string_or_null None = None"
| "string_or_null (Some s) = (if s = [] then None else Some s)"

fun string_or :: "string option \<Rightarrow> string \<Rightarrow> string" where
  "string_or None dflt = dflt"
| "string_or (Some s) dflt = (if s = [] then dflt else s)"

text \<open>\<^verbatim>\<open>r.metrics?.field || null\<close>, for a field that is always there and for an optional one.\<close>

fun metric_or_null :: "(metrics \<Rightarrow> 'a::zero) \<Rightarrow> metrics option \<Rightarrow> 'a option" where
  "metric_or_null field None = None"
| "metric_or_null field (Some m) = number_or_null (field m)"

fun optional_metric_or_null :: "(metrics \<Rightarrow> int option) \<Rightarrow> metrics option \<Rightarrow> int option" where
  "optional_metric_or_null field None = None"
| "optional_metric_or_null field (Some m) =
     (case field m of None \<Rightarrow> None | Some n \<Rightarrow> number_or_null n)"

definition create_test_run ::
  "db_env \<Rightarrow> string \<Rightarrow> string option \<Rightarrow> test_type \<Rightarrow> int \<Rightarrow> database
     \<Rightarrow> string option \<times> database" where
  "create_test_run env mdl git kind n db =
     (let rid = new_uuid env;
          row = \<lparr>total_input_tokens = 0, total_output_tokens = 0, total_cache_read_tokens = 0,
                 total_latency_ms = 0, total_cost_usd = 0,
                 passed_tests = 0, failed_tests = 0, avg_latency_ms = 0,
                 run_id = rid, run_timestamp = now env, run_model = mdl,
                 git_commit_hash = string_or_null git, total_tests = n,
                 run_test_type = kind, created_at = now env\<rparr>;
          (raised, db1) = run_statements (failing_statement env)
                            [\<lambda>b. b\<lparr>test_runs := test_runs b @ [row]\<rparr>] db
      in if raised then (None, db1) else (Some rid, db1))"

text \<open>\<^verbatim>\<open>UPDATE test_runs SET ... WHERE id = ?\<close>.\<close>

definition set_aggregates :: "string \<Rightarrow> run_aggregates \<Rightarrow> test_run_row \<Rightarrow> test_run_row" where
  "set_aggregates rid a row =
     (if run_id row = rid then
        row\<lparr>passed_tests := passed_tests a, failed_tests := failed_tests a,
            total_input_tokens := total_input_tokens a,
            total_output_tokens := total_output_tokens a,
            total_cache_read_tokens := total_cache_read_tokens a,
            total_latency_ms := total_latency_ms a,
            total_cost_usd := total_cost_usd a,
            avg_latency_ms := avg_latency_ms a\<rparr>
      else row)"

definition update_test_run ::
  "nat option \<Rightarrow> string \<Rightarrow> run_aggregates \<Rightarrow> database \<Rightarrow> bool \<times> database" where
  "update_test_run failing rid a db =
     run_statements failing
       [\<lambda>b. b\<lparr>test_runs := map (set_aggregates rid a) (test_runs b)\<rparr>] db"

text \<open>One \<^verbatim>\<open>INSERT INTO test_logs\<close> per line of the result's log.\<close>

definition log_statements ::
  "store_env \<Rightarrow> string \<Rightarrow> test_type \<Rightarrow> log_entry list \<Rightarrow> statement list" where
  "log_statements env result_id kind lg =
     map (\<lambda>(k, line). \<lambda>b. b\<lparr>test_logs := test_logs b @
            [\<lparr>test_result_id = result_id, log_test_type = kind, log_message = line,
              log_timestamp = log_now env k\<rparr>]\<rparr>)
         (enumerate 0 lg)"

definition activation_result_row ::
  "store_env \<Rightarrow> string \<Rightarrow> activation_test_result \<Rightarrow> string option \<Rightarrow> bool option
     \<Rightarrow> string option \<Rightarrow> string option \<Rightarrow> activation_row" where
  "activation_result_row env rid r qry should src ctx =
     \<lparr>row_id = new_uuid env, row_run_id = rid, row_test_id = test_id r,
      row_query = string_or qry [],
      row_passed = (if passed r then 1 else 0),
      row_error = string_or_null (error r),
      row_test_case_source = string_or src ''synthetic'',
      row_session_context = string_or_null ctx,
      row_input_tokens = metric_or_null input_tokens (result_metrics r),
      row_output_tokens = metric_or_null output_tokens (result_metrics r),
      row_cache_creation_tokens = metric_or_null cache_creation_tokens (result_metrics r),
      row_cache_read_tokens = metric_or_null cache_read_tokens (result_metrics r),
      row_thinking_tokens = optional_metric_or_null thinking_tokens (result_metrics r),
      row_latency_ms = metric_or_null latency_ms (result_metrics r),
      row_estimated_cost_usd = metric_or_null estimated_cost_usd (result_metrics r),
      row_created_at = now env,
      row_expected_skill = result_expected_skill r,
      row_activated_skill = activated_skill r,
      row_should_activate = (case should of None \<Rightarrow> 1 | Some b \<Rightarrow> (if b then 1 else 0))\<rparr>"

definition store_activation_result ::
  "store_env \<Rightarrow> string \<Rightarrow> activation_test_result \<Rightarrow> string option \<Rightarrow> bool option
     \<Rightarrow> string option \<Rightarrow> string option \<Rightarrow> database \<Rightarrow> bool \<times> database" where
  "store_activation_result env rid r qry should src ctx db =
     run_statements (failing_statement env)
       ((\<lambda>b. b\<lparr>activation_results := activation_results b @
                 [activation_result_row env rid r qry should src ctx]\<rparr>)
        # log_statements env (new_uuid env) Activation (logs r)) db"

definition quality_result_row ::
  "store_env \<Rightarrow> string \<Rightarrow> quality_test_result \<Rightarrow> string \<Rightarrow> string
     \<Rightarrow> string option \<Rightarrow> string option \<Rightarrow> string option \<Rightarrow> quality_row" where
  "quality_result_row env rid r qry skl full src ctx =
     \<lparr>row_id = new_uuid env, row_run_id = rid, row_test_id = test_id r,
      row_query = qry,
      row_passed = (if passed r then 1 else 0),
      row_error = string_or_null (error r),
      row_test_case_source = string_or src ''synthetic'',
      row_session_context = string_or_null ctx,
      row_input_tokens = metric_or_null input_tokens (result_metrics r),
      row_output_tokens = metric_or_null output_tokens (result_metrics r),
      row_cache_creation_tokens = metric_or_null cache_creation_tokens (result_metrics r),
      row_cache_read_tokens = metric_or_null cache_read_tokens (result_metrics r),
      row_thinking_tokens = optional_metric_or_null thinking_tokens (result_metrics r),
      row_latency_ms = metric_or_null latency_ms (result_metrics r),
      row_estimated_cost_usd = metric_or_null estimated_cost_usd (result_metrics r),
      row_created_at = now env,
      row_skill = skl,
      row_response_preview = response_preview r,
      row_response_full_text = string_or_null full\<rparr>"

definition store_quality_result ::
  "store_env \<Rightarrow> string \<Rightarrow> quality_test_result \<Rightarrow> string \<Rightarrow> string
     \<Rightarrow> string option \<Rightarrow> string option \<Rightarrow> string option \<Rightarrow> database
     \<Rightarrow> bool \<times> database" where
  "store_quality_result env rid r qry skl full src ctx db =
     run_statements (failing_statement env)
       ((\<lambda>b. b\<lparr>quality_results := quality_results b @
                 [quality_result_row env rid r qry skl full src ctx]\<rparr>)
        # map (\<lambda>f. \<lambda>b. b\<lparr>missing_facts_rows := missing_facts_rows b @ [(new_uuid env, f)]\<rparr>)
            (missing_facts r)
        @ map (\<lambda>c. \<lambda>b. b\<lparr>forbidden_content_rows :=
                              forbidden_content_rows b @ [(new_uuid env, c)]\<rparr>)
            (forbidden_content r)
        @ log_statements env (new_uuid env) Quality (logs r)) db"

section \<open>The run orchestrator\<close>

text \<open>
  What the outside world does during one batch. \<^verbatim>\<open>store_skill_versions\<close> and
  \<^verbatim>\<open>link_test_run_to_skill_versions\<close> come from a module outside these sources:
  the model takes from the environment whether each raises (and the version identifiers
  the first returns) and does not follow their own tables. The agent call and the
  storage call of the \<open>i\<close>-th test case are \<open>case_call env i\<close> and
  \<open>case_store env i\<close>.
\<close>

record batch_env =
  versions_outcome :: "string list option"
  create_env :: db_env
  link_raises :: bool
  case_call :: "nat \<Rightarrow> agent_call"
  case_store :: "nat \<Rightarrow> store_env"
  update_failing :: "nat option"

text \<open>\<^verbatim>\<open>test_cases[0]?.model\<close>.\<close>

fun first_model :: "'a test_case_scheme list \<Rightarrow> string option" where
  "first_model [] = None"
| "first_model (tc # tcs) = model tc"

text \<open>
  The \<^verbatim>\<open>try\<close> block at the start of both batch functions; the result is
  \<^verbatim>\<open>run_id\<close> as the block leaves it. The identifier is assigned as soon as
  \<^verbatim>\<open>create_test_run\<close> returns, before the versions are linked, and the handler
  does not reset it.
\<close>

definition initialize_run ::
  "batch_env \<Rightarrow> test_type \<Rightarrow> string option \<Rightarrow> nat \<Rightarrow> database
     \<Rightarrow> string option \<times> database" where
  "initialize_run env kind fm n db =
     (case versions_outcome env of
        None \<Rightarrow> (None, db)
      | Some versions \<Rightarrow>
          (case create_test_run (create_env env) (model_or_default fm) None kind (int n) db of
             (None, db1) \<Rightarrow> (None, db1)
           | (Some rid, db1) \<Rightarrow>
               (if link_raises env then (Some rid, db1) else (Some rid, db1))))"

definition zero_accumulators :: accumulators where
  "zero_accumulators = \<lparr>total_input_tokens = 0, total_output_tokens = 0,
     total_cache_read_tokens = 0, total_latency_ms = 0, total_cost_usd = 0,
     passed_count = 0\<rparr>"

text \<open>\<^verbatim>\<open>if (result.metrics) { ... }\<close> and \<^verbatim>\<open>if (result.passed) passed_count++\<close>.\<close>

definition aggregate :: "'a test_result_scheme \<Rightarrow> accumulators \<Rightarrow> accumulators" where
  "aggregate r a =
     (let a1 = (case result_metrics r of
                  Some m \<Rightarrow>
                    a\<lparr>total_input_tokens := total_input_tokens a + input_tokens m,
                      total_output_tokens := total_output_tokens a + output_tokens m,
                      total_cache_read_tokens := total_cache_read_tokens a + cache_read_tokens m,
                      total_latency_ms := total_latency_ms a + latency_ms m,
                      total_cost_usd := total_cost_usd a + estimated_cost_usd m\<rparr>
                | None \<Rightarrow> a)
      in if passed r then a1\<lparr>passed_count := passed_count a1 + 1\<rparr> else a1)"

text \<open>
  The state of the \<^verbatim>\<open>for\<close> loop of \<^verbatim>\<open>run_activation_tests\<close>: the results so
  far, the running totals and the database. The loop runs from index \<open>i\<close> over the
  test cases that remain. \<^verbatim>\<open>if (run_id)\<close> holds for a string that is not empty; an
  error raised by the storage call is caught and logged.
\<close>

fun activation_loop ::
  "deps \<Rightarrow> batch_env \<Rightarrow> string option \<Rightarrow> nat \<Rightarrow> activation_test_case list
     \<Rightarrow> activation_test_result list \<times> accumulators \<times> database
     \<Rightarrow> activation_test_result list \<times> accumulators \<times> database" where
  "activation_loop d env rid i [] st = st"
| "activation_loop d env rid i (tc # tcs) (results, acc, db) =
     (let result = test_skill_activation d (case_call env i) tc;
          db1 = (case rid of
                   Some r \<Rightarrow>
                     if r \<noteq> [] then
                       snd (store_activation_result (case_store env i) r result
                              (Some (query tc)) (Some (should_activate tc)) None None db)
                     else db
                 | None \<Rightarrow> db)
      in activation_loop d env rid (Suc i) tcs (results @ [result], aggregate result acc, db1))"

fun quality_loop ::
  "deps \<Rightarrow> batch_env \<Rightarrow> string option \<Rightarrow> nat \<Rightarrow> quality_test_case list
     \<Rightarrow> quality_test_result list \<times> accumulators \<times> database
     \<Rightarrow> quality_test_result list \<times> accumulators \<times> database" where
  "quality_loop d env rid i [] st = st"
| "quality_loop d env rid i (tc # tcs) (results, acc, db) =
     (let result = test_response_quality d (case_call env i) tc;
          db1 = (case rid of
                   Some r \<Rightarrow>
                     if r \<noteq> [] then
                       snd (store_quality_result (case_store env i) r result
                              (query tc) (skill_name (skill tc)) (response_full_text result)
                              None None db)
                     else db
                 | None \<Rightarrow> db)
      in quality_loop d env rid (Suc i) tcs (results @ [result], aggregate result acc, db1))"

text \<open>
  The values computed after the loop and handed to \<^verbatim>\<open>update_test_run\<close>. The
  division is JavaScript's division of numbers; the model divides exactly.
\<close>

definition finalize_run :: "nat \<Rightarrow> accumulators \<Rightarrow> run_aggregates" where
  "finalize_run n acc =
     (let failed_count = int n - passed_count acc;
          avg = (if n > 0 then of_int (total_latency_ms acc) / of_nat n else 0)
      in \<lparr>total_input_tokens = total_input_tokens acc,
          total_output_tokens = total_output_tokens acc,
          total_cache_read_tokens = total_cache_read_tokens acc,
          total_latency_ms = total_latency_ms acc,
          total_cost_usd = total_cost_usd acc,
          passed_tests = passed_count acc, failed_tests = failed_count,
          avg_latency_ms = avg\<rparr>)"

definition run_activation_tests ::
  "deps \<Rightarrow> batch_env \<Rightarrow> activation_test_case list \<Rightarrow> database
     \<Rightarrow> activation_test_result list \<times> database" where
  "run_activation_tests d env test_cases db =
     (let (rid, db1) = initialize_run env Activation (first_model test_cases)
                         (length test_cases) db;
          (results, acc, db2) = activation_loop d env rid 0 test_cases
                                  ([], zero_accumulators, db1);
          fin = finalize_run (length test_cases) acc;
          db3 = (case rid of
                   Some r \<Rightarrow>
                     if r \<noteq> [] then snd (update_test_run (update_failing env) r fin db2)
                     else db2
                 | None \<Rightarrow> db2)
      in (results, db3))"

definition run_quality_tests ::
  "deps \<Rightarrow> batch_env \<Rightarrow> quality_test_case list \<Rightarrow> database
     \<Rightarrow> quality_test_result list \<times> database" where
  "run_quality_tests d env test_cases db =
     (let (rid, db1) = initialize_run env Quality (first_model test_cases)
                         (length test_cases) db;
          (results, acc, db2) = quality_loop d env rid 0 test_cases
                                  ([], zero_accumulators, db1);
          fin = finalize_run (length test_cases) acc;
          db3 = (case rid of
                   Some r \<Rightarrow>
                     if r \<noteq> [] then snd (update_test_run (update_failing env) r fin db2)
                     else db2
                 | None \<Rightarrow> db2)
      in (results, db3))"

section \<open>Reference notions used in the statements\<close>

text \<open>The messages a stream yields before it ends or raises, and the error it ends with.\<close>

fun yielded :: "message_stream \<Rightarrow> message list" where
  "yielded Done = []"
| "yielded (Raise e) = []"
| "yielded (Yield m rest) = m # yielded rest"

fun stream_error :: "message_stream \<Rightarrow> thrown option" where
  "stream_error Done = None"
| "stream_error (Raise e) = Some e"
| "stream_error (Yield m rest) = stream_error rest"

fun message_blocks :: "message \<Rightarrow> block list" where
  "message_blocks (AssistantMessage u (ContentArray bs)) = bs"
| "message_blocks m = []"

fun block_text :: "block \<Rightarrow> string" where
  "block_text (TextBlock t) = t"
| "block_text b = []"

text \<open>
  The accumulated response text of a stream: the text blocks of its assistant messages,
  joined in the order they arrive.
\<close>

definition accumulated_text :: "message_stream \<Rightarrow> string" where
  "accumulated_text st = concat (map block_text (concat (map message_blocks (yielded st))))"

text \<open>
  The activation as the specification words it: the skill named by the first tool
  invocation of the stream that is named \<^verbatim>\<open>Skill\<close> and whose argument has a
  \<^verbatim>\<open>skill\<close> field.
\<close>

fun block_skill :: "block \<Rightarrow> string option" where
  "block_skill (ToolUse name input) =
     (if name = ''Skill'' then map_option js_String (skill_argument input) else None)"
| "block_skill b = None"

fun first_match :: "block list \<Rightarrow> string option" where
  "first_match [] = None"
| "first_match (b # bs) = (case block_skill b of Some v \<Rightarrow> Some v | None \<Rightarrow> first_match bs)"

definition first_skill_invocation :: "message_stream \<Rightarrow> string option" where
  "first_skill_invocation st = first_match (concat (map message_blocks (yielded st)))"

text \<open>
  A message ends the activation loop when its first \<^verbatim>\<open>Skill\<close> invocation with a
  \<^verbatim>\<open>skill\<close> field names a skill that is not the empty string.
\<close>

definition activating :: "message \<Rightarrow> bool" where
  "activating m = (case first_match (message_blocks m) of None \<Rightarrow> False | Some v \<Rightarrow> v \<noteq> [])"

text \<open>
  The error an agent call ends with before any message ends the activation loop: the
  error raised by \<^verbatim>\<open>query(...)\<close> itself, or the error the stream raises when none
  of the messages it has yielded is activating.
\<close>

definition raises_unactivated :: "agent_call \<Rightarrow> thrown \<Rightarrow> bool" where
  "raises_unactivated call e =
     (case query_raises call of
        Some e' \<Rightarrow> e' = e
      | None \<Rightarrow> stream_error (responses call) = Some e
                \<and> \<not> list_ex activating (yielded (responses call)))"

text \<open>The error an agent call ends with when its stream is read to the end.\<close>

definition raises_drained :: "agent_call \<Rightarrow> thrown \<Rightarrow> bool" where
  "raises_drained call e =
     (case query_raises call of
        Some e' \<Rightarrow> e' = e
      | None \<Rightarrow> stream_error (responses call) = Some e)"

text \<open>
  The lines the activation path logs for the blocks of one message: one for every tool
  invocation up to the first \<^verbatim>\<open>Skill\<close> invocation with a \<^verbatim>\<open>skill\<close> field, and
  one more for that invocation. The quality path logs one line for every text block.
\<close>

fun tool_lines :: "block list \<Rightarrow> log_entry list" where
  "tool_lines [] = []"
| "tool_lines (ToolUse name input # bs) =
     LogToolUse name #
       (case block_skill (ToolUse name input) of
          Some v \<Rightarrow> [LogSkillActivated v]
        | None \<Rightarrow> tool_lines bs)"
| "tool_lines (b # bs) = tool_lines bs"

fun text_line :: "block \<Rightarrow> log_entry list" where
  "text_line (TextBlock t) = [LogTextResponse (length t)]"
| "text_line b = []"

text \<open>
  The lines logged while an agent call is consumed up to its error: nothing but the four
  opening lines when \<^verbatim>\<open>query(...)\<close> raises; otherwise the line
  \<^verbatim>\<open>Processing messages...\<close> and, for every message yielded, its type and the
  lines of its blocks.
\<close>

definition activation_lines :: "agent_call \<Rightarrow> log_entry list" where
  "activation_lines call =
     (case query_raises call of
        Some e \<Rightarrow> []
      | None \<Rightarrow>
          LogProcessing #
          concat (map (\<lambda>m. LogMessageType (message_type m) # tool_lines (message_blocks m))
                    (yielded (responses call))))"

definition quality_lines :: "agent_call \<Rightarrow> log_entry list" where
  "quality_lines call =
     (case query_raises call of
        Some e \<Rightarrow> []
      | None \<Rightarrow>
          LogProcessing #
          concat (map (\<lambda>m. LogMessageType (message_type m)
                              # concat (map text_line (message_blocks m)))
                    (yielded (responses call))))"





text \<open>
  What the language fixes for \<^verbatim>\<open>toLowerCase\<close> on ASCII text: the code units 65 to
  90 (A to Z) move up by 32 and every other one stays. \<open>lowers_ascii d\<close> says that the
  engine's function does this on every ASCII string; beyond ASCII nothing is assumed.
\<close>

definition lower_char :: "char \<Rightarrow> char" where
  "lower_char c =
     (let n = (of_char c :: nat)
      in if 65 \<le> n \<and> n \<le> 90 then char_of (n + 32) else c)"



text \<open>The latency a result adds to the running total: none when it has no metrics.\<close>

definition result_latency :: "'a test_result_scheme \<Rightarrow> int" where
  "result_latency r = (case result_metrics r of None \<Rightarrow> 0 | Some m \<Rightarrow> latency_ms m)"

section \<open>Concrete test cases, streams and environments\<close>

text \<open>
  Modelled from the spec: the two helpers of the metrics aggregator, whose module is not
  among the sources. The token total is input + output + cache creation + cache read; the
  cost applies per-token rates to the counters (here the rates of the specification's
  scenario: 3, 15 and 0.3 per million input, output and cache-read tokens; the scenario
  gives no rate for cache creation, and that term is left out). Lower-casing is the ASCII
  one. They serve the concrete instances below only; every general statement
  holds for all helpers.
\<close>

definition example_deps :: deps where
  "example_deps =
     \<lparr>calculate_total_tokens =
        (\<lambda>u. Inr (input_tokens u + output_tokens u + cache_creation_tokens u
                    + cache_read_tokens u)),
      calculate_cost =
        (\<lambda>u m. Inr (of_int (input_tokens u) * 3 / 1000000
                      + of_int (output_tokens u) * 15 / 1000000
                      + of_int (cache_read_tokens u) * 3 / 10000000)),
      toLowerCase = map lower_char\<rparr>"

definition runes_case :: activation_test_case where
  "runes_case = \<lparr>test_case_id = ''activation-runes'', query = ''How do I use $state?'',
     description = ''runes question'', model = None,
     expected_skill = Svelte5Runes, should_activate = True\<rparr>"

definition structure_case :: activation_test_case where
  "structure_case = \<lparr>test_case_id = ''activation-structure'', query = ''Where do layouts go?'',
     description = ''structure question'', model = None,
     expected_skill = SveltekitStructure, should_activate = True\<rparr>"

definition onclick_case :: quality_test_case where
  "onclick_case = \<lparr>test_case_id = ''quality-onclick'', query = ''How do I handle a click?'',
     description = ''event handler syntax'', model = None,
     skill = Svelte5Runes, expected_facts = Some [''onclick''],
     must_not_contain = Some [''on:click'']\<rparr>"

definition some_usage :: api_usage where
  "some_usage = \<lparr>usage_input_tokens = Some 1000, usage_output_tokens = Some 500,
     cache_creation_input_tokens = None, cache_read_input_tokens = Some 200,
     usage_thinking_tokens = None\<rparr>"

text \<open>An assistant message that invokes the \<^verbatim>\<open>Skill\<close> tool with the given skill name.\<close>

definition skill_message :: "string \<Rightarrow> message" where
  "skill_message name =
     AssistantMessage (Some some_usage)
       (ContentArray [ToolUse ''Skill'' (JObject [(''skill'', JString name)])])"

definition text_message :: "string \<Rightarrow> message" where
  "text_message t = AssistantMessage (Some some_usage) (ContentArray [TextBlock t])"

definition call_of :: "message_stream \<Rightarrow> agent_call" where
  "call_of st = \<lparr>query_raises = None, responses = st, start_time = 1000, end_time = 1250\<rparr>"

text \<open>A call in which \<^verbatim>\<open>query(...)\<close> itself raises.\<close>

definition refused_call :: agent_call where
  "refused_call = \<lparr>query_raises = Some (ErrorObject ''invalid api key''), responses = Done,
     start_time = 1000, end_time = 1000\<rparr>"

text \<open>A stream that activates the runes skill, one that fails at once, and one that
  delivers part of an answer before it fails.\<close>

definition runes_stream :: message_stream where
  "runes_stream = Yield (OtherMessage ''system'') (Yield (skill_message ''svelte5-runes'') Done)"

definition failing_stream :: message_stream where
  "failing_stream = Raise (ErrorObject ''connection refused'')"

definition partial_stream :: message_stream where
  "partial_stream =
     Yield (text_message ''Use OnClick={handler}'') (Raise (ErrorObject ''connection reset''))"

text \<open>
  A stream that yields a system message and a tool invocation that is not an activation,
  and then fails.
\<close>

definition late_failure_stream :: message_stream where
  "late_failure_stream =
     Yield (OtherMessage ''system'')
       (Yield (AssistantMessage (Some some_usage)
                 (ContentArray [ToolUse ''Read'' (JObject [(''path'', JString ''README.md'')])]))
          (Raise (ErrorObject ''stream interrupted'')))"

definition onclick_stream :: message_stream where
  "onclick_stream = Yield (text_message ''Use OnClick={handler}'') (Yield (OtherMessage ''result'') Done)"

text \<open>
  A stream whose first assistant message invokes \<^verbatim>\<open>Skill\<close> with an empty skill
  name and whose second invokes it with \<^verbatim>\<open>svelte5-runes\<close>.
\<close>

definition empty_then_runes :: message_stream where
  "empty_then_runes =
     Yield (skill_message []) (Yield (skill_message ''svelte5-runes'') Done)"

text \<open>A call whose stream ends at once and takes no time: every counter stays at zero.\<close>

definition silent_call :: agent_call where
  "silent_call = \<lparr>query_raises = None, responses = Done, start_time = 1000,
     end_time = 1000\<rparr>"

definition quiet_store :: store_env where
  "quiet_store = \<lparr>new_uuid = ''result-uuid'', now = 2000, failing_statement = None,
     log_now = (\<lambda>k. 2000)\<rparr>"

text \<open>
  A batch in which the second agent call fails, and the same batch with an error raised
  while the versions are linked to the run.
\<close>

definition example_env :: batch_env where
  "example_env =
     \<lparr>versions_outcome = Some [''version-1''],
      create_env = \<lparr>new_uuid = ''run-uuid'', now = 900, failing_statement = None\<rparr>,
      link_raises = False,
      case_call = (\<lambda>i. if i = 1 then call_of failing_stream else call_of runes_stream),
      case_store = (\<lambda>i. quiet_store),
      update_failing = None\<rparr>"

definition link_failure_env :: batch_env where
  "link_failure_env = example_env\<lparr>link_raises := True\<rparr>"

text \<open>
  A batch in which the second agent call fails after two messages and, for the third,
  \<^verbatim>\<open>query(...)\<close> itself raises.
\<close>

definition failures_env :: batch_env where
  "failures_env =
     example_env\<lparr>case_call :=
       (\<lambda>i. if i = 1 then call_of late_failure_stream
            else if i = 2 then refused_call
            else call_of runes_stream)\<rparr>"

section \<open>Results of a single activation test\<close>

lemma activation_failure_fields:
  "passed (activation_failure tc lg e) = False"
  "activated_skill (activation_failure tc lg e) = None"
  "error (activation_failure tc lg e) = Some (error_message e)"
  "result_metrics (activation_failure tc lg e) = None"
  "test_id (activation_failure tc lg e) = test_case_id tc"
  "logs (activation_failure tc lg e) = lg @ [LogError (test_case_id tc) (error_message e)]"
  by (simp_all add: activation_failure_def)

text \<open>
  Claim C1. On the path of \<^verbatim>\<open>test_skill_activation\<close> that returns without an
  error, \<open>passed\<close> is exactly "the activated skill is the expected skill, and the
  case should activate". In particular a null \<open>activated_skill\<close> never passes, and a
  case whose \<open>should_activate\<close> is false never passes.
\<close>

theorem activation_passed_formula:
  assumes "error (test_skill_activation d call tc) = None"
  shows "passed (test_skill_activation d call tc) =
           (activated_skill (test_skill_activation d call tc)
              = Some (skill_name (expected_skill tc))
            \<and> should_activate tc)
         \<and> (activated_skill (test_skill_activation d call tc) = None
              \<longrightarrow> \<not> passed (test_skill_activation d call tc))
         \<and> (\<not> should_activate tc \<longrightarrow> \<not> passed (test_skill_activation d call tc))"
  using assms
  by (auto simp add: test_skill_activation_def Let_def activation_failure_fields
      split: prod.splits option.splits sum.splits)

theorem activation_passed_formula_witness:
  "error (test_skill_activation example_deps (call_of runes_stream) runes_case) = None
   \<and> passed (test_skill_activation example_deps (call_of runes_stream) runes_case)
   \<and> activated_skill (test_skill_activation example_deps (call_of runes_stream) runes_case)
       = Some ''svelte5-runes''"
proof -
  have h: "error (test_skill_activation example_deps (call_of runes_stream) runes_case) = None"
    by code_simp
  have a: "activated_skill (test_skill_activation example_deps (call_of runes_stream) runes_case)
             = Some ''svelte5-runes''"
    by code_simp
  show ?thesis
    using h a activation_passed_formula [OF h] by (simp add: runes_case_def)
qed

lemma scan_blocks_activated:
  "activated (scan_blocks bs s)
     = (case first_match bs of None \<Rightarrow> activated s | Some v \<Rightarrow> Some v)"
  by (induction bs s rule: scan_blocks.induct) (auto simp add: Let_def split: option.splits)

lemma scan_content_activated:
  "activated (scan_content c s)
     = (case first_match (message_blocks (AssistantMessage u c)) of
          None \<Rightarrow> activated s | Some v \<Rightarrow> Some v)"
  by (cases c) (simp_all add: scan_blocks_activated)

lemma first_match_append:
  "first_match (xs @ ys)
     = (case first_match xs of None \<Rightarrow> first_match ys | Some v \<Rightarrow> Some v)"
  by (induction xs) (auto split: option.splits)

lemma first_match_nonempty:
  "first_match bs = Some v \<Longrightarrow> \<exists>b \<in> set bs. block_skill b = Some v"
  by (induction bs) (auto split: option.splits)

text \<open>
  A skill name that is not empty ends the loop: whatever follows the message that
  carries it is not read.
\<close>

lemma consume_activation_stops:
  assumes "first_match (message_blocks (AssistantMessage u c)) = Some v" and "v \<noteq> []"
  shows "consume_activation (Yield (AssistantMessage u c) rest) s
           = consume_activation (Yield (AssistantMessage u c) rest') s"
  using assms by (simp add: Let_def scan_content_activated [of c _ u])

text \<open>
  When no \<^verbatim>\<open>Skill\<close> invocation of the stream names the empty string, the loop ends
  with the first invocation of the stream.
\<close>

lemma consume_activation_first_invocation:
  assumes "\<forall>b \<in> set (concat (map message_blocks (yielded st))). block_skill b \<noteq> Some []"
    and "\<not> truthy (activated s)"
  shows "activated (snd (consume_activation st s))
           = (case first_skill_invocation st of None \<Rightarrow> activated s | Some v \<Rightarrow> Some v)"
  using assms
proof (induction st arbitrary: s)
  case Done
  then show ?case by (simp add: first_skill_invocation_def)
next
  case (Raise e)
  then show ?case by (simp add: first_skill_invocation_def)
next
  case (Yield m rest)
  show ?case
  proof (cases m)
    case (OtherMessage t)
    have "activated (snd (consume_activation rest
            (s\<lparr>trace := trace s @ [LogMessageType t], usage := usage s\<rparr>)))
          = (case first_skill_invocation rest of None \<Rightarrow> activated s | Some v \<Rightarrow> Some v)"
      using Yield.IH [of "s\<lparr>trace := trace s @ [LogMessageType t], usage := usage s\<rparr>"]
        Yield.prems by (auto split: option.splits)
    with OtherMessage show ?thesis
      by (simp add: Let_def first_skill_invocation_def split: option.splits)
  next
    case (AssistantMessage u c)
    let ?s2 = "s\<lparr>trace := trace s @ [LogMessageType ''assistant''],
                 usage := extract_usage m (usage s)\<rparr>"
    let ?s3 = "scan_content c ?s2"
    have a3: "activated ?s3
                = (case first_match (message_blocks m) of
                     None \<Rightarrow> activated s | Some v \<Rightarrow> Some v)"
      using scan_content_activated [of c ?s2 u] AssistantMessage
      by (auto split: option.splits)
    show ?thesis
    proof (cases "first_match (message_blocks m)")
      case None
      then have nt: "\<not> truthy (activated ?s3)"
        using a3 Yield.prems(2) by simp
      have "activated (snd (consume_activation rest ?s3))
              = (case first_skill_invocation rest of
                   None \<Rightarrow> activated ?s3 | Some v \<Rightarrow> Some v)"
        using Yield.IH [of ?s3] Yield.prems(1) nt by (auto split: option.splits)
      with None nt a3 AssistantMessage show ?thesis
        by (simp add: Let_def first_skill_invocation_def first_match_append
            split: option.splits)
    next
      case (Some v)
      then obtain b where "b \<in> set (message_blocks m)" "block_skill b = Some v"
        using first_match_nonempty by blast
      with Yield.prems(1) have "v \<noteq> []" by auto
      with Some a3 AssistantMessage show ?thesis
        by (simp add: Let_def first_skill_invocation_def first_match_append)
    qed
  qed
qed

text \<open>
  The error the activation loop ends with, and the lines it logs, in terms of the
  stream alone.
\<close>

lemma scan_blocks_trace:
  "trace (scan_blocks bs s) = trace s @ tool_lines bs"
  by (induction bs s rule: scan_blocks.induct) (auto simp add: Let_def split: option.splits)

lemma scan_content_trace:
  "trace (scan_content c s) = trace s @ tool_lines (message_blocks (AssistantMessage u c))"
  by (cases c) (simp_all add: scan_blocks_trace)

lemma scan_content_truthy:
  assumes "\<not> truthy (activated s)"
  shows "truthy (activated (scan_content c s)) = activating (AssistantMessage u c)"
  using assms scan_content_activated [of c s u]
  by (auto simp add: activating_def split: option.splits)

lemma consume_activation_error:
  assumes "\<not> truthy (activated s)"
  shows "fst (consume_activation st s)
           = (if list_ex activating (yielded st) then None else stream_error st)"
  using assms
proof (induction st arbitrary: s)
  case Done
  then show ?case by simp
next
  case (Raise e)
  then show ?case by simp
next
  case (Yield m rest)
  show ?case
  proof (cases m)
    case (OtherMessage t)
    have "\<not> activating m"
      using OtherMessage by (simp add: activating_def)
    moreover have "fst (consume_activation rest
            (s\<lparr>trace := trace s @ [LogMessageType t], usage := usage s\<rparr>))
          = (if list_ex activating (yielded rest) then None else stream_error rest)"
      using Yield.IH [of "s\<lparr>trace := trace s @ [LogMessageType t], usage := usage s\<rparr>"]
        Yield.prems by simp
    ultimately show ?thesis
      using OtherMessage by (simp add: Let_def)
  next
    case (AssistantMessage u c)
    let ?s2 = "s\<lparr>trace := trace s @ [LogMessageType ''assistant''],
                 usage := extract_usage m (usage s)\<rparr>"
    have n2: "\<not> truthy (activated ?s2)"
      using Yield.prems by simp
    have t3: "truthy (activated (scan_content c ?s2)) = activating m"
      using scan_content_truthy [OF n2, of c u] AssistantMessage by simp
    show ?thesis
    proof (cases "activating m")
      case True
      with t3 AssistantMessage show ?thesis by (simp add: Let_def)
    next
      case False
      with t3 have "\<not> truthy (activated (scan_content c ?s2))" by simp
      then have "fst (consume_activation rest (scan_content c ?s2))
                   = (if list_ex activating (yielded rest) then None else stream_error rest)"
        by (rule Yield.IH)
      with False t3 AssistantMessage show ?thesis by (simp add: Let_def)
    qed
  qed
qed

lemma consume_activation_trace:
  assumes "\<not> list_ex activating (yielded st)" and "\<not> truthy (activated s)"
  shows "trace (snd (consume_activation st s))
           = trace s @ concat (map (\<lambda>m. LogMessageType (message_type m)
                                            # tool_lines (message_blocks m)) (yielded st))"
  using assms
proof (induction st arbitrary: s)
  case Done
  then show ?case by simp
next
  case (Raise e)
  then show ?case by simp
next
  case (Yield m rest)
  show ?case
  proof (cases m)
    case (OtherMessage t)
    have "trace (snd (consume_activation rest
            (s\<lparr>trace := trace s @ [LogMessageType t], usage := usage s\<rparr>)))
          = (trace s @ [LogMessageType t])
            @ concat (map (\<lambda>m. LogMessageType (message_type m)
                                  # tool_lines (message_blocks m)) (yielded rest))"
      using Yield.IH [of "s\<lparr>trace := trace s @ [LogMessageType t], usage := usage s\<rparr>"]
        Yield.prems by simp
    with OtherMessage show ?thesis by (simp add: Let_def)
  next
    case (AssistantMessage u c)
    let ?s2 = "s\<lparr>trace := trace s @ [LogMessageType ''assistant''],
                 usage := extract_usage m (usage s)\<rparr>"
    have n2: "\<not> truthy (activated ?s2)"
      using Yield.prems by simp
    have "\<not> activating m" and r: "\<not> list_ex activating (yielded rest)"
      using Yield.prems(1) by simp_all
    then have n3: "\<not> truthy (activated (scan_content c ?s2))"
      using scan_content_truthy [OF n2, of c u] AssistantMessage by simp
    have "trace (snd (consume_activation rest (scan_content c ?s2)))
            = trace (scan_content c ?s2)
              @ concat (map (\<lambda>m. LogMessageType (message_type m)
                                    # tool_lines (message_blocks m)) (yielded rest))"
      using r n3 by (rule Yield.IH)
    with n3 AssistantMessage show ?thesis
      by (simp add: Let_def scan_content_trace [of c _ u])
  qed
qed

text \<open>The result of an activation test whose agent call raises before any activation.\<close>

lemma activation_error_result:
  assumes "raises_unactivated call e"
  shows "test_skill_activation d call tc =
           \<lparr>test_id = test_case_id tc, passed = False, error = Some (error_message e),
            logs = calling_lines tc @ activation_lines call
                     @ [LogError (test_case_id tc) (error_message e)],
            result_metrics = None,
            result_expected_skill = skill_name (expected_skill tc),
            activated_skill = None\<rparr>"
proof (cases "query_raises call")
  case (Some e')
  with assms have "e' = e" by (simp add: raises_unactivated_def)
  with Some show ?thesis
    by (simp add: test_skill_activation_def Let_def activation_failure_def activation_lines_def)
next
  case None
  with assms have se: "stream_error (responses call) = Some e"
    and na: "\<not> list_ex activating (yielded (responses call))"
    by (simp_all add: raises_unactivated_def)
  have st: "\<not> truthy (activated (activation_start tc))"
    by (simp add: activation_start_def)
  have f: "fst (consume_activation (responses call) (activation_start tc)) = Some e"
    using consume_activation_error [OF st, of "responses call"] se na by simp
  have t: "trace (snd (consume_activation (responses call) (activation_start tc)))
             = calling_lines tc @ activation_lines call"
    using consume_activation_trace [OF na st] None
    by (simp add: activation_start_def activation_lines_def)
  obtain r s where c: "consume_activation (responses call) (activation_start tc) = (r, s)"
    by (cases "consume_activation (responses call) (activation_start tc)")
  with f t have "r = Some e" "trace s = calling_lines tc @ activation_lines call" by simp_all
  with None c show ?thesis
    by (simp add: test_skill_activation_def Let_def activation_failure_def)
qed

text \<open>
  Claim C6. The activation is meant to be the first \<^verbatim>\<open>Skill\<close> invocation of the
  stream, after which no further message is read. The loop over the messages is left
  with \<^verbatim>\<open>if (activated_skill) break\<close>, which an empty skill name does not satisfy:
  on \<open>empty_then_runes\<close> the first invocation names the empty string, the second
  message is read all the same, and its invocation replaces the first.
\<close>

theorem empty_skill_name_keeps_scanning:
  "first_skill_invocation empty_then_runes = Some []
   \<and> activated_skill (test_skill_activation example_deps (call_of empty_then_runes) runes_case)
       = Some ''svelte5-runes''
   \<and> passed (test_skill_activation example_deps (call_of empty_then_runes) runes_case)"
  by code_simp

section \<open>Results of a single quality test\<close>

lemma quality_failure_fields:
  "passed (quality_failure tc lg e) = False"
  "missing_facts (quality_failure tc lg e) = []"
  "forbidden_content (quality_failure tc lg e) = []"
  "response_preview (quality_failure tc lg e) = []"
  "response_full_text (quality_failure tc lg e) = None"
  "error (quality_failure tc lg e) = Some (error_message e)"
  "result_metrics (quality_failure tc lg e) = None"
  "test_id (quality_failure tc lg e) = test_case_id tc"
  "logs (quality_failure tc lg e) = lg @ [LogError (test_case_id tc) (error_message e)]"
  by (simp_all add: quality_failure_def)




lemma collect_text_response:
  "response_text (collect_text bs s) = response_text s @ concat (map block_text bs)"
  by (induction bs s rule: collect_text.induct) auto

lemma collect_content_response:
  "response_text (collect_content c s)
     = response_text s @ concat (map block_text (message_blocks (AssistantMessage u c)))"
  by (cases c) (simp_all add: collect_text_response)

lemma consume_quality_error:
  "fst (consume_quality st s) = stream_error st"
  by (induction st arbitrary: s) (auto simp: Let_def split: message.splits)

lemma consume_quality_text:
  "response_text (snd (consume_quality st s)) = response_text s @ accumulated_text st"
proof (induction st arbitrary: s)
  case Done
  then show ?case by (simp add: accumulated_text_def)
next
  case (Raise e)
  then show ?case by (simp add: accumulated_text_def)
next
  case (Yield m rest)
  show ?case
  proof (cases m)
    case (AssistantMessage u c)
    then show ?thesis
      using Yield.IH collect_content_response [of c _ u]
      by (simp add: Let_def accumulated_text_def)
  next
    case (OtherMessage t)
    then show ?thesis
      using Yield.IH by (simp add: Let_def accumulated_text_def)
  qed
qed

lemma quality_start_text: "response_text (quality_start tc) = []"
  by (simp add: quality_start_def)

lemma collect_text_trace:
  "trace (collect_text bs s) = trace s @ concat (map text_line bs)"
  by (induction bs s rule: collect_text.induct) auto

lemma collect_content_trace:
  "trace (collect_content c s)
     = trace s @ concat (map text_line (message_blocks (AssistantMessage u c)))"
  by (cases c) (simp_all add: collect_text_trace)

lemma consume_quality_trace:
  "trace (snd (consume_quality st s))
     = trace s @ concat (map (\<lambda>m. LogMessageType (message_type m)
                                      # concat (map text_line (message_blocks m))) (yielded st))"
proof (induction st arbitrary: s)
  case Done
  then show ?case by simp
next
  case (Raise e)
  then show ?case by simp
next
  case (Yield m rest)
  show ?case
  proof (cases m)
    case (AssistantMessage u c)
    then show ?thesis
      using Yield.IH collect_content_trace [of c _ u] by (simp add: Let_def)
  next
    case (OtherMessage t)
    then show ?thesis
      using Yield.IH by (simp add: Let_def)
  qed
qed

text \<open>The result of a quality test whose agent call raises.\<close>

lemma quality_error_result:
  assumes "raises_drained call e"
  shows "test_response_quality d call tc =
           \<lparr>test_id = test_case_id tc, passed = False, error = Some (error_message e),
            logs = calling_lines tc @ quality_lines call
                     @ [LogError (test_case_id tc) (error_message e)],
            result_metrics = None,
            missing_facts = [], forbidden_content = [], response_preview = [],
            response_full_text = None\<rparr>"
proof (cases "query_raises call")
  case (Some e')
  with assms have "e' = e" by (simp add: raises_drained_def)
  with Some show ?thesis
    by (simp add: test_response_quality_def Let_def quality_failure_def quality_lines_def)
next
  case None
  with assms have se: "stream_error (responses call) = Some e"
    by (simp add: raises_drained_def)
  have f: "fst (consume_quality (responses call) (quality_start tc)) = Some e"
    using se by (simp add: consume_quality_error)
  have t: "trace (snd (consume_quality (responses call) (quality_start tc)))
             = calling_lines tc @ quality_lines call"
    using consume_quality_trace [of "responses call" "quality_start tc"] None
    by (simp add: quality_start_def quality_lines_def)
  obtain r s where c: "consume_quality (responses call) (quality_start tc) = (r, s)"
    by (cases "consume_quality (responses call) (quality_start tc)")
  with f t have "r = Some e" "trace s = calling_lines tc @ quality_lines call" by simp_all
  with None c show ?thesis
    by (simp add: test_response_quality_def Let_def quality_failure_def)
qed

text \<open>The result on each of the two paths.\<close>

lemma quality_result_error_path:
  assumes "error (test_response_quality d call tc) \<noteq> None"
  shows "\<exists>lg e. test_response_quality d call tc = quality_failure tc lg e"
  using assms
  by (auto simp add: test_response_quality_def Let_def
      split: prod.splits option.splits sum.splits)

lemma quality_result_success_path:
  assumes "error (test_response_quality d call tc) = None"
  shows "missing_facts (test_response_quality d call tc)
           = check_expected_facts d (accumulated_text (responses call)) (expected_facts tc)"
    and "forbidden_content (test_response_quality d call tc)
           = check_must_not_contain d (accumulated_text (responses call)) (must_not_contain tc)"
    and "passed (test_response_quality d call tc)
           = (missing_facts (test_response_quality d call tc) = []
              \<and> forbidden_content (test_response_quality d call tc) = [])"
    and "response_preview (test_response_quality d call tc)
           = take 200 (accumulated_text (responses call))"
    and "response_full_text (test_response_quality d call tc)
           = Some (accumulated_text (responses call))"
proof -
  obtain raised s where cq: "consume_quality (responses call) (quality_start tc) = (raised, s)"
    by (cases "consume_quality (responses call) (quality_start tc)")
  have rt: "response_text s = accumulated_text (responses call)"
    using consume_quality_text [of "responses call" "quality_start tc"] cq
    by (simp add: quality_start_text)
  from assms cq rt
  show "missing_facts (test_response_quality d call tc)
           = check_expected_facts d (accumulated_text (responses call)) (expected_facts tc)"
    by (auto simp add: test_response_quality_def Let_def quality_failure_fields
      split: prod.splits option.splits sum.splits)
  from assms cq rt
  show "forbidden_content (test_response_quality d call tc)
           = check_must_not_contain d (accumulated_text (responses call)) (must_not_contain tc)"
    by (auto simp add: test_response_quality_def Let_def quality_failure_fields
      split: prod.splits option.splits sum.splits)
  from assms cq rt
  show "passed (test_response_quality d call tc)
           = (missing_facts (test_response_quality d call tc) = []
              \<and> forbidden_content (test_response_quality d call tc) = [])"
    by (auto simp add: test_response_quality_def Let_def quality_failure_fields
      split: prod.splits option.splits sum.splits)
  from assms cq rt
  show "response_preview (test_response_quality d call tc)
           = take 200 (accumulated_text (responses call))"
    by (auto simp add: test_response_quality_def Let_def quality_failure_fields
      split: prod.splits option.splits sum.splits)
  from assms cq rt
  show "response_full_text (test_response_quality d call tc)
           = Some (accumulated_text (responses call))"
    by (auto simp add: test_response_quality_def Let_def quality_failure_fields
      split: prod.splits option.splits sum.splits)
qed















text \<open>
  Claim C4, as stated, fails when the agent call raises: the result of the handler has
  both lists empty and \<open>passed = False\<close>.
\<close>

theorem failed_invocation_has_empty_lists_but_fails:
  "missing_facts (test_response_quality example_deps (call_of failing_stream) onclick_case) = []
   \<and> forbidden_content (test_response_quality example_deps (call_of failing_stream) onclick_case) = []
   \<and> \<not> passed (test_response_quality example_deps (call_of failing_stream) onclick_case)"
  by code_simp

text \<open>
  Claim C4, amended. A result of \<^verbatim>\<open>test_response_quality\<close> that carries no error
  and has no missing fact and no forbidden content has \<open>passed = True\<close>; a result that
  carries an error has both lists empty and \<open>passed = False\<close>.
\<close>

theorem clean_quality_result_passes:
  "(error (test_response_quality d call tc) = None
      \<longrightarrow> missing_facts (test_response_quality d call tc) = []
      \<longrightarrow> forbidden_content (test_response_quality d call tc) = []
      \<longrightarrow> passed (test_response_quality d call tc))
   \<and> (error (test_response_quality d call tc) \<noteq> None
      \<longrightarrow> missing_facts (test_response_quality d call tc) = []
          \<and> forbidden_content (test_response_quality d call tc) = []
          \<and> \<not> passed (test_response_quality d call tc))"
proof (intro conjI impI)
  assume "error (test_response_quality d call tc) = None"
    and "missing_facts (test_response_quality d call tc) = []"
    and "forbidden_content (test_response_quality d call tc) = []"
  then show "passed (test_response_quality d call tc)"
    using quality_result_success_path(3) by blast
next
  assume "error (test_response_quality d call tc) \<noteq> None"
  then obtain lg e where r: "test_response_quality d call tc = quality_failure tc lg e"
    using quality_result_error_path by blast
  show "missing_facts (test_response_quality d call tc) = []"
    "forbidden_content (test_response_quality d call tc) = []"
    "\<not> passed (test_response_quality d call tc)"
    unfolding r by (simp_all add: quality_failure_fields)
qed

theorem clean_quality_result_passes_witness:
  "error (test_response_quality example_deps (call_of onclick_stream) onclick_case) = None
   \<and> missing_facts (test_response_quality example_deps (call_of onclick_stream) onclick_case) = []
   \<and> forbidden_content (test_response_quality example_deps (call_of onclick_stream) onclick_case) = []
   \<and> passed (test_response_quality example_deps (call_of onclick_stream) onclick_case)
   \<and> error (test_response_quality example_deps (call_of failing_stream) onclick_case) \<noteq> None
   \<and> \<not> passed (test_response_quality example_deps (call_of failing_stream) onclick_case)"
proof -
  have h: "error (test_response_quality example_deps (call_of onclick_stream) onclick_case) = None"
    by code_simp
  have m: "missing_facts (test_response_quality example_deps (call_of onclick_stream) onclick_case) = []"
    by code_simp
  have f: "forbidden_content (test_response_quality example_deps (call_of onclick_stream) onclick_case) = []"
    by code_simp
  have g: "error (test_response_quality example_deps (call_of failing_stream) onclick_case) \<noteq> None"
    by code_simp
  show ?thesis
    using h m f g
      clean_quality_result_passes [of example_deps "call_of onclick_stream" onclick_case]
      clean_quality_result_passes [of example_deps "call_of failing_stream" onclick_case]
    by simp
qed

text \<open>
  Claim C9. In every result of \<^verbatim>\<open>test_response_quality\<close> the preview is a prefix
  of the accumulated response text and has at most 200 characters. Without an error the
  full text is the whole accumulated text and the preview its first 200 characters; with
  an error the preview is empty and the full text is absent.
\<close>

theorem response_preview_and_full_text:
  "prefix (response_preview (test_response_quality d call tc)) (accumulated_text (responses call))
   \<and> length (response_preview (test_response_quality d call tc)) \<le> 200
   \<and> (error (test_response_quality d call tc) = None
        \<longrightarrow> response_full_text (test_response_quality d call tc)
              = Some (accumulated_text (responses call))
          \<and> response_preview (test_response_quality d call tc)
              = take 200 (accumulated_text (responses call)))
   \<and> (error (test_response_quality d call tc) \<noteq> None
        \<longrightarrow> response_preview (test_response_quality d call tc) = []
          \<and> response_full_text (test_response_quality d call tc) = None)"
proof (cases "error (test_response_quality d call tc) = None")
  case True
  have p: "response_preview (test_response_quality d call tc)
             = take 200 (accumulated_text (responses call))"
    by (rule quality_result_success_path(4) [OF True])
  have f: "response_full_text (test_response_quality d call tc)
             = Some (accumulated_text (responses call))"
    by (rule quality_result_success_path(5) [OF True])
  show ?thesis using True p f by (simp add: take_is_prefix)
next
  case False
  then obtain lg e where r: "test_response_quality d call tc = quality_failure tc lg e"
    using quality_result_error_path by blast
  show ?thesis unfolding r by (simp add: quality_failure_fields)
qed

theorem response_preview_and_full_text_witness:
  "error (test_response_quality example_deps (call_of onclick_stream) onclick_case) = None
   \<and> response_preview (test_response_quality example_deps (call_of onclick_stream) onclick_case)
       = ''Use OnClick={handler}''
   \<and> response_full_text (test_response_quality example_deps (call_of onclick_stream) onclick_case)
       = Some ''Use OnClick={handler}''
   \<and> error (test_response_quality example_deps (call_of partial_stream) onclick_case) \<noteq> None
   \<and> response_preview (test_response_quality example_deps (call_of partial_stream) onclick_case) = []
   \<and> response_full_text (test_response_quality example_deps (call_of partial_stream) onclick_case)
       = None"
proof -
  have h: "error (test_response_quality example_deps (call_of onclick_stream) onclick_case) = None"
    by code_simp
  have t: "accumulated_text (responses (call_of onclick_stream)) = ''Use OnClick={handler}''"
    by code_simp
  have g: "error (test_response_quality example_deps (call_of partial_stream) onclick_case) \<noteq> None"
    by code_simp
  show ?thesis
    using h t g
      response_preview_and_full_text [of example_deps "call_of onclick_stream" onclick_case]
      response_preview_and_full_text [of example_deps "call_of partial_stream" onclick_case]
    by simp
qed

section \<open>Error results\<close>

text \<open>
  Claim C8, as stated, fails: on \<open>partial_stream\<close> the loop has collected a text and
  usage counters when the error is raised, and the result has an empty preview, no full
  text and no metrics.
\<close>

theorem partial_output_is_dropped:
  "stream_error partial_stream = Some (ErrorObject ''connection reset'')
   \<and> accumulated_text partial_stream = ''Use OnClick={handler}''
   \<and> response_text (snd (consume_quality partial_stream (quality_start onclick_case)))
       = ''Use OnClick={handler}''
   \<and> input_tokens (usage (snd (consume_quality partial_stream (quality_start onclick_case)))) = 1000
   \<and> response_preview (test_response_quality example_deps (call_of partial_stream) onclick_case) = []
   \<and> response_full_text (test_response_quality example_deps (call_of partial_stream) onclick_case)
       = None
   \<and> result_metrics (test_response_quality example_deps (call_of partial_stream) onclick_case)
       = None
   \<and> input_tokens (usage (snd (consume_activation partial_stream (activation_start runes_case))))
       = 1000
   \<and> result_metrics (test_skill_activation example_deps (call_of partial_stream) runes_case) = None"
  by code_simp

text \<open>
  Claim C8, amended. When the agent call raises an error partway (in \<^verbatim>\<open>query(...)\<close>
  itself, or from the stream before any message has ended the activation loop, or
  anywhere in the stream on the quality path), the result is the one built by the
  handler: the error text, \<open>passed = False\<close> and the lines logged up to the error,
  followed by one error line. Nothing else of the partial output is kept: on the
  activation path \<open>activated_skill\<close> is null and the metrics are absent; on the quality
  path the two lists and the preview are empty and the full text and the metrics are
  absent.
\<close>

theorem error_result_keeps_only_the_log:
  "(raises_unactivated call e
      \<longrightarrow> test_skill_activation d call atc =
            \<lparr>test_id = test_case_id atc, passed = False, error = Some (error_message e),
             logs = calling_lines atc @ activation_lines call
                      @ [LogError (test_case_id atc) (error_message e)],
             result_metrics = None,
             result_expected_skill = skill_name (expected_skill atc),
             activated_skill = None\<rparr>)
   \<and> (raises_drained call e
      \<longrightarrow> test_response_quality d call qtc =
            \<lparr>test_id = test_case_id qtc, passed = False, error = Some (error_message e),
             logs = calling_lines qtc @ quality_lines call
                      @ [LogError (test_case_id qtc) (error_message e)],
             result_metrics = None,
             missing_facts = [], forbidden_content = [], response_preview = [],
             response_full_text = None\<rparr>)"
  using activation_error_result [of call e d atc] quality_error_result [of call e d qtc]
  by blast

theorem error_result_keeps_only_the_log_witness:
  "raises_unactivated (call_of late_failure_stream) (ErrorObject ''stream interrupted'')
   \<and> logs (test_skill_activation example_deps (call_of late_failure_stream) runes_case)
       = [LogStarting ''activation-runes'', LogUsingModel ''claude-sonnet-4-5-20250929'',
          LogQuery ''How do I use $state?'', LogCallingSdk, LogProcessing,
          LogMessageType ''system'', LogMessageType ''assistant'', LogToolUse ''Read'',
          LogError ''activation-runes'' ''stream interrupted'']
   \<and> activated_skill (test_skill_activation example_deps (call_of late_failure_stream)
                         runes_case) = None
   \<and> result_metrics (test_skill_activation example_deps (call_of late_failure_stream)
                        runes_case) = None
   \<and> raises_unactivated refused_call (ErrorObject ''invalid api key'')
   \<and> logs (test_skill_activation example_deps refused_call runes_case)
       = [LogStarting ''activation-runes'', LogUsingModel ''claude-sonnet-4-5-20250929'',
          LogQuery ''How do I use $state?'', LogCallingSdk,
          LogError ''activation-runes'' ''invalid api key'']
   \<and> raises_drained (call_of partial_stream) (ErrorObject ''connection reset'')
   \<and> logs (test_response_quality example_deps (call_of partial_stream) onclick_case)
       = [LogStarting ''quality-onclick'', LogUsingModel ''claude-sonnet-4-5-20250929'',
          LogQuery ''How do I handle a click?'', LogCallingSdk, LogProcessing,
          LogMessageType ''assistant'', LogTextResponse 21,
          LogError ''quality-onclick'' ''connection reset'']
   \<and> response_preview (test_response_quality example_deps (call_of partial_stream)
                          onclick_case) = []
   \<and> error (test_response_quality example_deps (call_of partial_stream) onclick_case)
       = Some ''connection reset''"
proof -
  have a: "raises_unactivated (call_of late_failure_stream) (ErrorObject ''stream interrupted'')"
    by code_simp
  have al: "calling_lines runes_case @ activation_lines (call_of late_failure_stream)
              = [LogStarting ''activation-runes'', LogUsingModel ''claude-sonnet-4-5-20250929'',
                 LogQuery ''How do I use $state?'', LogCallingSdk, LogProcessing,
                 LogMessageType ''system'', LogMessageType ''assistant'', LogToolUse ''Read'']"
    by code_simp
  have r: "raises_unactivated refused_call (ErrorObject ''invalid api key'')"
    by code_simp
  have rl: "calling_lines runes_case @ activation_lines refused_call
              = [LogStarting ''activation-runes'', LogUsingModel ''claude-sonnet-4-5-20250929'',
                 LogQuery ''How do I use $state?'', LogCallingSdk]"
    by code_simp
  have q: "raises_drained (call_of partial_stream) (ErrorObject ''connection reset'')"
    by code_simp
  have ql: "calling_lines onclick_case @ quality_lines (call_of partial_stream)
              = [LogStarting ''quality-onclick'', LogUsingModel ''claude-sonnet-4-5-20250929'',
                 LogQuery ''How do I handle a click?'', LogCallingSdk, LogProcessing,
                 LogMessageType ''assistant'', LogTextResponse 21]"
    by code_simp
  have i: "test_case_id runes_case = ''activation-runes''"
    "test_case_id onclick_case = ''quality-onclick''"
    by (simp_all add: runes_case_def onclick_case_def)
  have "test_skill_activation example_deps (call_of late_failure_stream) runes_case =
            \<lparr>test_id = test_case_id runes_case, passed = False,
             error = Some (error_message (ErrorObject ''stream interrupted'')),
             logs = calling_lines runes_case @ activation_lines (call_of late_failure_stream)
                      @ [LogError (test_case_id runes_case)
                           (error_message (ErrorObject ''stream interrupted''))],
             result_metrics = None,
             result_expected_skill = skill_name (expected_skill runes_case),
             activated_skill = None\<rparr>"
    using a error_result_keeps_only_the_log
            [of "call_of late_failure_stream" "ErrorObject ''stream interrupted''"
                example_deps runes_case onclick_case]
    by blast
  then have 1: "logs (test_skill_activation example_deps (call_of late_failure_stream) runes_case)
       = [LogStarting ''activation-runes'', LogUsingModel ''claude-sonnet-4-5-20250929'',
          LogQuery ''How do I use $state?'', LogCallingSdk, LogProcessing,
          LogMessageType ''system'', LogMessageType ''assistant'', LogToolUse ''Read'',
          LogError ''activation-runes'' ''stream interrupted'']"
    and 2: "activated_skill (test_skill_activation example_deps (call_of late_failure_stream)
                         runes_case) = None"
    and 3: "result_metrics (test_skill_activation example_deps (call_of late_failure_stream)
                        runes_case) = None"
    using al i by simp_all
  have "test_skill_activation example_deps refused_call runes_case =
            \<lparr>test_id = test_case_id runes_case, passed = False,
             error = Some (error_message (ErrorObject ''invalid api key'')),
             logs = calling_lines runes_case @ activation_lines refused_call
                      @ [LogError (test_case_id runes_case)
                           (error_message (ErrorObject ''invalid api key''))],
             result_metrics = None,
             result_expected_skill = skill_name (expected_skill runes_case),
             activated_skill = None\<rparr>"
    using r error_result_keeps_only_the_log
            [of refused_call "ErrorObject ''invalid api key''"
                example_deps runes_case onclick_case]
    by blast
  then have 4: "logs (test_skill_activation example_deps refused_call runes_case)
       = [LogStarting ''activation-runes'', LogUsingModel ''claude-sonnet-4-5-20250929'',
          LogQuery ''How do I use $state?'', LogCallingSdk,
          LogError ''activation-runes'' ''invalid api key'']"
    using rl i by simp
  have "test_response_quality example_deps (call_of partial_stream) onclick_case =
            \<lparr>test_id = test_case_id onclick_case, passed = False,
             error = Some (error_message (ErrorObject ''connection reset'')),
             logs = calling_lines onclick_case @ quality_lines (call_of partial_stream)
                      @ [LogError (test_case_id onclick_case)
                           (error_message (ErrorObject ''connection reset''))],
             result_metrics = None,
             missing_facts = [], forbidden_content = [], response_preview = [],
             response_full_text = None\<rparr>"
    using q error_result_keeps_only_the_log
            [of "call_of partial_stream" "ErrorObject ''connection reset''"
                example_deps runes_case onclick_case]
    by blast
  then have 5: "logs (test_response_quality example_deps (call_of partial_stream) onclick_case)
       = [LogStarting ''quality-onclick'', LogUsingModel ''claude-sonnet-4-5-20250929'',
          LogQuery ''How do I handle a click?'', LogCallingSdk, LogProcessing,
          LogMessageType ''assistant'', LogTextResponse 21,
          LogError ''quality-onclick'' ''connection reset'']"
    and 6: "response_preview (test_response_quality example_deps (call_of partial_stream)
                          onclick_case) = []"
    and 7: "error (test_response_quality example_deps (call_of partial_stream) onclick_case)
       = Some ''connection reset''"
    using ql i by simp_all
  from a r q 1 2 3 4 5 6 7 show ?thesis by blast
qed

section \<open>Batches\<close>

lemma test_skill_activation_test_id:
  "test_id (test_skill_activation d call tc) = test_case_id tc"
  by (auto simp add: test_skill_activation_def Let_def activation_failure_fields
      split: prod.splits option.splits sum.splits)

lemma activation_loop_results:
  "fst (activation_loop d env rid i tcs (results, acc, db))
     = results @ map (\<lambda>(k, tc). test_skill_activation d (case_call env k) tc) (enumerate i tcs)"
  by (induction tcs arbitrary: i results acc db) (simp_all add: Let_def)

lemma quality_loop_results:
  "fst (quality_loop d env rid i tcs (results, acc, db))
     = results @ map (\<lambda>(k, tc). test_response_quality d (case_call env k) tc) (enumerate i tcs)"
  by (induction tcs arbitrary: i results acc db) (simp_all add: Let_def)

lemma activation_loop_accumulators:
  "fst (snd (activation_loop d env rid i tcs (results, acc, db)))
     = fold aggregate
         (map (\<lambda>(k, tc). test_skill_activation d (case_call env k) tc) (enumerate i tcs)) acc"
  by (induction tcs arbitrary: i results acc db) (simp_all add: Let_def)

lemma quality_loop_accumulators:
  "fst (snd (quality_loop d env rid i tcs (results, acc, db)))
     = fold aggregate
         (map (\<lambda>(k, tc). test_response_quality d (case_call env k) tc) (enumerate i tcs)) acc"
  by (induction tcs arbitrary: i results acc db) (simp_all add: Let_def)

lemma aggregate_passed_count:
  "passed_count (aggregate r a) = passed_count a + (if passed r then 1 else 0)"
  by (simp add: aggregate_def Let_def split: option.splits)

lemma aggregate_total_latency:
  "total_latency_ms (aggregate r a) = total_latency_ms a + result_latency r"
  by (simp add: aggregate_def Let_def result_latency_def split: option.splits)

lemma fold_aggregate_passed_count:
  "passed_count (fold aggregate rs a) = passed_count a + int (length (filter passed rs))"
  by (induction rs arbitrary: a) (simp_all add: aggregate_passed_count)

lemma fold_aggregate_total_latency:
  "total_latency_ms (fold aggregate rs a) = total_latency_ms a + sum_list (map result_latency rs)"
  by (induction rs arbitrary: a) (simp_all add: aggregate_total_latency)

lemma run_activation_tests_results:
  "fst (run_activation_tests d env tcs db)
     = map (\<lambda>(k, tc). test_skill_activation d (case_call env k) tc) (enumerate 0 tcs)"
proof -
  obtain rid db1 where i: "initialize_run env Activation (first_model tcs) (length tcs) db = (rid, db1)"
    by (cases "initialize_run env Activation (first_model tcs) (length tcs) db")
  obtain results acc db2 where
    l: "activation_loop d env rid 0 tcs ([], zero_accumulators, db1) = (results, acc, db2)"
    by (cases "activation_loop d env rid 0 tcs ([], zero_accumulators, db1)")
  have "results = map (\<lambda>(k, tc). test_skill_activation d (case_call env k) tc) (enumerate 0 tcs)"
    using activation_loop_results [of d env rid 0 tcs "[]" zero_accumulators db1] l by simp
  then show ?thesis
    by (simp add: run_activation_tests_def i l Let_def)
qed

lemma run_activation_tests_nth:
  assumes "i < length tcs"
  shows "fst (run_activation_tests d env tcs db) ! i
           = test_skill_activation d (case_call env i) (tcs ! i)"
  using assms by (simp add: run_activation_tests_results nth_enumerate_eq)

text \<open>
  Claim C2. For a list of \<open>N\<close> activation test cases, \<^verbatim>\<open>run_activation_tests\<close>
  returns \<open>N\<close> results, the \<open>i\<close>-th with the identifier of the \<open>i\<close>-th case
  and equal to the result of that case tested on its own; when the agent call of case
  \<open>k\<close> raises an error (in \<^verbatim>\<open>query(...)\<close>, or from its stream before a message
  has ended the loop), the result of case \<open>k\<close> has \<open>passed = False\<close> and the
  error text, whatever the other cases do.
\<close>

theorem batch_isolates_failures:
  "length (fst (run_activation_tests d env tcs db)) = length tcs
   \<and> (\<forall>i<length tcs.
         test_id (fst (run_activation_tests d env tcs db) ! i) = test_case_id (tcs ! i)
         \<and> fst (run_activation_tests d env tcs db) ! i
             = test_skill_activation d (case_call env i) (tcs ! i))
   \<and> (\<forall>k<length tcs. \<forall>e.
         raises_unactivated (case_call env k) e
         \<longrightarrow> \<not> passed (fst (run_activation_tests d env tcs db) ! k)
             \<and> error (fst (run_activation_tests d env tcs db) ! k) = Some (error_message e))"
proof (intro conjI allI impI)
  show "length (fst (run_activation_tests d env tcs db)) = length tcs"
    by (simp add: run_activation_tests_results)
next
  fix i assume "i < length tcs"
  then show "test_id (fst (run_activation_tests d env tcs db) ! i) = test_case_id (tcs ! i)"
    by (simp add: run_activation_tests_nth test_skill_activation_test_id)
next
  fix i assume "i < length tcs"
  then show "fst (run_activation_tests d env tcs db) ! i
               = test_skill_activation d (case_call env i) (tcs ! i)"
    by (rule run_activation_tests_nth)
next
  fix k e
  assume k: "k < length tcs" and r: "raises_unactivated (case_call env k) e"
  note res = activation_error_result [OF r, of d "tcs ! k"]
  show "\<not> passed (fst (run_activation_tests d env tcs db) ! k)"
    and "error (fst (run_activation_tests d env tcs db) ! k) = Some (error_message e)"
    using k by (simp_all add: run_activation_tests_nth res)
qed

theorem batch_isolates_failures_witness:
  "length (fst (run_activation_tests example_deps failures_env
                  [runes_case, structure_case, runes_case, runes_case] empty_database)) = 4
   \<and> passed (fst (run_activation_tests example_deps failures_env
                  [runes_case, structure_case, runes_case, runes_case] empty_database) ! 0)
   \<and> raises_unactivated (case_call failures_env 1) (ErrorObject ''stream interrupted'')
   \<and> \<not> passed (fst (run_activation_tests example_deps failures_env
                  [runes_case, structure_case, runes_case, runes_case] empty_database) ! 1)
   \<and> error (fst (run_activation_tests example_deps failures_env
                    [runes_case, structure_case, runes_case, runes_case] empty_database) ! 1)
       = Some ''stream interrupted''
   \<and> raises_unactivated (case_call failures_env 2) (ErrorObject ''invalid api key'')
   \<and> \<not> passed (fst (run_activation_tests example_deps failures_env
                  [runes_case, structure_case, runes_case, runes_case] empty_database) ! 2)
   \<and> error (fst (run_activation_tests example_deps failures_env
                    [runes_case, structure_case, runes_case, runes_case] empty_database) ! 2)
       = Some ''invalid api key''
   \<and> passed (fst (run_activation_tests example_deps failures_env
                  [runes_case, structure_case, runes_case, runes_case] empty_database) ! 3)"
proof -
  let ?tcs = "[runes_case, structure_case, runes_case, runes_case]"
  let ?res = "fst (run_activation_tests example_deps failures_env ?tcs empty_database)"
  have c: "case_call failures_env 0 = call_of runes_stream"
    "case_call failures_env 1 = call_of late_failure_stream"
    "case_call failures_env 2 = refused_call"
    "case_call failures_env 3 = call_of runes_stream"
    by (simp_all add: failures_env_def)
  have r1: "raises_unactivated (case_call failures_env 1) (ErrorObject ''stream interrupted'')"
    unfolding c by code_simp
  have r2: "raises_unactivated (case_call failures_env 2) (ErrorObject ''invalid api key'')"
    unfolding c by code_simp
  have p: "passed (test_skill_activation example_deps (call_of runes_stream) runes_case)"
    by code_simp
  note T = batch_isolates_failures [of example_deps failures_env ?tcs empty_database]
  have n: "length ?res = 4"
    using T by simp
  have "(0::nat) < length ?tcs" by simp
  with T have "?res ! 0 = test_skill_activation example_deps (case_call failures_env 0) (?tcs ! 0)"
    by blast
  then have r0: "?res ! 0 = test_skill_activation example_deps (call_of runes_stream) runes_case"
    unfolding c by simp
  have "(3::nat) < length ?tcs" by simp
  with T have "?res ! 3 = test_skill_activation example_deps (case_call failures_env 3) (?tcs ! 3)"
    by blast
  then have r3: "?res ! 3 = test_skill_activation example_deps (call_of runes_stream) runes_case"
    unfolding c by simp
  have "(1::nat) < length ?tcs" by simp
  with T r1 have e1: "\<not> passed (?res ! 1)
      \<and> error (?res ! 1) = Some (error_message (ErrorObject ''stream interrupted''))"
    by blast
  have "(2::nat) < length ?tcs" by simp
  with T r2 have e2: "\<not> passed (?res ! 2)
      \<and> error (?res ! 2) = Some (error_message (ErrorObject ''invalid api key''))"
    by blast
  show ?thesis using n r0 r3 e1 e2 r1 r2 p by simp
qed

section \<open>The run record\<close>

lemma run_statements_preserves:
  assumes "\<And>st b. st \<in> set sts \<Longrightarrow> f (st b) = f b"
  shows "f (snd (run_statements failing sts db)) = f db"
  using assms
proof (induction failing sts db rule: run_statements.induct)
  case (1 failing db)
  then show ?case by simp
next
  case (2 st sts db)
  then show ?case by simp
next
  case (3 st sts db)
  then show ?case by simp
next
  case (4 k st sts db)
  then show ?case by simp
qed

lemma log_statements_test_runs:
  "st \<in> set (log_statements env rid kind lg) \<Longrightarrow> test_runs (st b) = test_runs b"
  by (auto simp add: log_statements_def)

lemma store_activation_result_test_runs:
  "test_runs (snd (store_activation_result env rid r qry should src ctx db)) = test_runs db"
  unfolding store_activation_result_def
  by (rule run_statements_preserves) (auto simp add: log_statements_test_runs)

lemma store_quality_result_test_runs:
  "test_runs (snd (store_quality_result env rid r qry skl full src ctx db)) = test_runs db"
  unfolding store_quality_result_def
  by (rule run_statements_preserves) (auto simp add: log_statements_test_runs)

lemma activation_loop_test_runs:
  "test_runs (snd (snd (activation_loop d env rid i tcs (results, acc, db)))) = test_runs db"
  by (induction tcs arbitrary: i results acc db)
     (simp_all add: Let_def store_activation_result_test_runs split: option.splits)

lemma quality_loop_test_runs:
  "test_runs (snd (snd (quality_loop d env rid i tcs (results, acc, db)))) = test_runs db"
  by (induction tcs arbitrary: i results acc db)
     (simp_all add: Let_def store_quality_result_test_runs split: option.splits)

lemma initialize_run_row:
  assumes "initialize_run env kind fm n db = (Some r, db1)"
  shows "\<exists>row \<in> set (test_runs db1). run_id row = r"
  using assms
  by (auto simp add: initialize_run_def create_test_run_def Let_def
      split: option.splits prod.splits if_splits nat.splits
      elim!: run_statements.elims)

lemma update_test_run_rows:
  assumes "failing \<noteq> Some 0"
  shows "test_runs (snd (update_test_run failing r a db)) = map (set_aggregates r a) (test_runs db)"
proof (cases failing)
  case None
  then show ?thesis by (simp add: update_test_run_def)
next
  case (Some k)
  with assms obtain j where "k = Suc j" by (cases k) auto
  with Some show ?thesis by (simp add: update_test_run_def)
qed

lemma set_aggregates_run_id: "run_id (set_aggregates r a row) = run_id row"
  by (simp add: set_aggregates_def)

lemma finalize_run_fields:
  "passed_tests (finalize_run n acc) = passed_count acc"
  "failed_tests (finalize_run n acc) = int n - passed_count acc"
  "total_latency_ms (finalize_run n acc) = total_latency_ms acc"
  "avg_latency_ms (finalize_run n acc)
     = (if n > 0 then of_int (total_latency_ms acc) / of_nat n else 0)"
  by (simp_all add: finalize_run_def Let_def)

lemma zero_accumulators_fields:
  "passed_count zero_accumulators = 0" "total_latency_ms zero_accumulators = 0"
  by (simp_all add: zero_accumulators_def)

lemma finalize_fold:
  "failed_tests (finalize_run n (fold aggregate rs zero_accumulators))
     = int n - passed_tests (finalize_run n (fold aggregate rs zero_accumulators))
   \<and> avg_latency_ms (finalize_run n (fold aggregate rs zero_accumulators))
     = (if n > 0
        then of_int (total_latency_ms (finalize_run n (fold aggregate rs zero_accumulators)))
               / of_nat n
        else 0)
   \<and> passed_tests (finalize_run n (fold aggregate rs zero_accumulators))
     = int (length (filter passed rs))
   \<and> total_latency_ms (finalize_run n (fold aggregate rs zero_accumulators))
     = sum_list (map result_latency rs)"
  by (simp add: finalize_run_fields fold_aggregate_passed_count fold_aggregate_total_latency
      zero_accumulators_fields)

lemma set_aggregates_fields:
  "run_id row = r \<Longrightarrow> passed_tests (set_aggregates r a row) = passed_tests a"
  "run_id row = r \<Longrightarrow> failed_tests (set_aggregates r a row) = failed_tests a"
  "run_id row = r \<Longrightarrow> total_latency_ms (set_aggregates r a row) = total_latency_ms a"
  "run_id row = r \<Longrightarrow> avg_latency_ms (set_aggregates r a row) = avg_latency_ms a"
  by (simp_all add: set_aggregates_def)

lemma run_activation_tests_rows:
  assumes i: "initialize_run env Activation (first_model tcs) (length tcs) db = (Some r, db1)"
    and r: "r \<noteq> []"
    and u: "update_failing env \<noteq> Some 0"
  shows "test_runs (snd (run_activation_tests d env tcs db))
           = map (set_aggregates r
                    (finalize_run (length tcs)
                       (fold aggregate (fst (run_activation_tests d env tcs db))
                          zero_accumulators)))
               (test_runs db1)"
proof -
  obtain results acc db2 where
    l: "activation_loop d env (Some r) 0 tcs ([], zero_accumulators, db1) = (results, acc, db2)"
    by (cases "activation_loop d env (Some r) 0 tcs ([], zero_accumulators, db1)")
  have res: "fst (run_activation_tests d env tcs db) = results"
    by (simp add: run_activation_tests_def i l Let_def)
  have acc: "acc = fold aggregate results zero_accumulators"
    using activation_loop_accumulators [of d env "Some r" 0 tcs "[]" zero_accumulators db1]
      activation_loop_results [of d env "Some r" 0 tcs "[]" zero_accumulators db1] l
    by simp
  have db2: "test_runs db2 = test_runs db1"
    using activation_loop_test_runs [of d env "Some r" 0 tcs "[]" zero_accumulators db1] l
    by simp
  have "snd (run_activation_tests d env tcs db)
          = snd (update_test_run (update_failing env) r (finalize_run (length tcs) acc) db2)"
    using r by (simp add: run_activation_tests_def i l Let_def)
  then show ?thesis
    using update_test_run_rows [OF u] by (simp add: res acc db2)
qed

text \<open>
  Claim C5. The values \<^verbatim>\<open>run_activation_tests\<close> computes after its loop, for a batch
  of \<open>length tcs\<close> cases: the failed count is the number of cases minus the passed
  count, and the average latency is the accumulated latency divided by the number of
  cases, or 0 for an empty batch; the passed count is the number of results that passed
  and the accumulated latency is the sum of the latencies of the results that have
  metrics. When a run identifier is bound and the update is carried out, these are the
  values of the run's row in \<^verbatim>\<open>test_runs\<close>.
\<close>

theorem finalization_values:
  "(failed_tests (finalize_run (length tcs)
       (fst (snd (activation_loop d env rid 0 tcs ([], zero_accumulators, db1)))))
     = int (length tcs)
       - passed_tests (finalize_run (length tcs)
           (fst (snd (activation_loop d env rid 0 tcs ([], zero_accumulators, db1)))))
    \<and> avg_latency_ms (finalize_run (length tcs)
         (fst (snd (activation_loop d env rid 0 tcs ([], zero_accumulators, db1)))))
     = (if length tcs > 0
        then of_int (total_latency_ms (finalize_run (length tcs)
               (fst (snd (activation_loop d env rid 0 tcs ([], zero_accumulators, db1))))))
             / of_nat (length tcs)
        else 0)
    \<and> passed_tests (finalize_run (length tcs)
         (fst (snd (activation_loop d env rid 0 tcs ([], zero_accumulators, db1)))))
     = int (length (filter passed
         (fst (activation_loop d env rid 0 tcs ([], zero_accumulators, db1)))))
    \<and> total_latency_ms (finalize_run (length tcs)
         (fst (snd (activation_loop d env rid 0 tcs ([], zero_accumulators, db1)))))
     = sum_list (map result_latency
         (fst (activation_loop d env rid 0 tcs ([], zero_accumulators, db1)))))
   \<and> (initialize_run env Activation (first_model tcs) (length tcs) db = (Some r, db0)
        \<and> r \<noteq> [] \<and> update_failing env \<noteq> Some 0
      \<longrightarrow> (\<exists>row \<in> set (test_runs (snd (run_activation_tests d env tcs db))). run_id row = r)
        \<and> (\<forall>row \<in> set (test_runs (snd (run_activation_tests d env tcs db))).
              run_id row = r
              \<longrightarrow> failed_tests row = int (length tcs) - passed_tests row
                \<and> avg_latency_ms row
                    = (if length tcs > 0
                       then of_int (total_latency_ms row) / of_nat (length tcs) else 0)
                \<and> passed_tests row
                    = int (length (filter passed (fst (run_activation_tests d env tcs db))))
                \<and> total_latency_ms row
                    = sum_list (map result_latency
                        (fst (run_activation_tests d env tcs db)))))"
proof (intro conjI impI)
  let ?rs = "map (\<lambda>(k, tc). test_skill_activation d (case_call env k) tc) (enumerate 0 tcs)"
  have a: "fst (snd (activation_loop d env rid 0 tcs ([], zero_accumulators, db1)))
             = fold aggregate ?rs zero_accumulators"
    by (rule activation_loop_accumulators)
  have b: "fst (activation_loop d env rid 0 tcs ([], zero_accumulators, db1)) = ?rs"
    using activation_loop_results [of d env rid 0 tcs "[]" zero_accumulators db1] by simp
  note f = finalize_fold [of "length tcs" ?rs]
  show "failed_tests (finalize_run (length tcs)
       (fst (snd (activation_loop d env rid 0 tcs ([], zero_accumulators, db1)))))
     = int (length tcs)
       - passed_tests (finalize_run (length tcs)
           (fst (snd (activation_loop d env rid 0 tcs ([], zero_accumulators, db1)))))"
    unfolding a using f by blast
  show "avg_latency_ms (finalize_run (length tcs)
         (fst (snd (activation_loop d env rid 0 tcs ([], zero_accumulators, db1)))))
     = (if length tcs > 0
        then of_int (total_latency_ms (finalize_run (length tcs)
               (fst (snd (activation_loop d env rid 0 tcs ([], zero_accumulators, db1))))))
             / of_nat (length tcs)
        else 0)"
    unfolding a using f by blast
  show "passed_tests (finalize_run (length tcs)
         (fst (snd (activation_loop d env rid 0 tcs ([], zero_accumulators, db1)))))
     = int (length (filter passed
         (fst (activation_loop d env rid 0 tcs ([], zero_accumulators, db1)))))"
    unfolding a b using f by blast
  show "total_latency_ms (finalize_run (length tcs)
         (fst (snd (activation_loop d env rid 0 tcs ([], zero_accumulators, db1)))))
     = sum_list (map result_latency
         (fst (activation_loop d env rid 0 tcs ([], zero_accumulators, db1))))"
    unfolding a b using f by blast
next
  assume h: "initialize_run env Activation (first_model tcs) (length tcs) db = (Some r, db0)
        \<and> r \<noteq> [] \<and> update_failing env \<noteq> Some 0"
  let ?fin = "finalize_run (length tcs)
                (fold aggregate (fst (run_activation_tests d env tcs db)) zero_accumulators)"
  have rows: "test_runs (snd (run_activation_tests d env tcs db))
                = map (set_aggregates r ?fin) (test_runs db0)"
    using h run_activation_tests_rows by blast
  from h obtain row0 where "row0 \<in> set (test_runs db0)" "run_id row0 = r"
    using initialize_run_row by blast
  then have "set_aggregates r ?fin row0 \<in> set (test_runs (snd (run_activation_tests d env tcs db)))"
    "run_id (set_aggregates r ?fin row0) = r"
    by (simp_all add: rows set_aggregates_run_id)
  then show "\<exists>row \<in> set (test_runs (snd (run_activation_tests d env tcs db))). run_id row = r"
    by blast
  note f = finalize_fold [of "length tcs" "fst (run_activation_tests d env tcs db)"]
  show "\<forall>row \<in> set (test_runs (snd (run_activation_tests d env tcs db))).
              run_id row = r
              \<longrightarrow> failed_tests row = int (length tcs) - passed_tests row
                \<and> avg_latency_ms row
                    = (if length tcs > 0
                       then of_int (total_latency_ms row) / of_nat (length tcs) else 0)
                \<and> passed_tests row
                    = int (length (filter passed (fst (run_activation_tests d env tcs db))))
                \<and> total_latency_ms row
                    = sum_list (map result_latency
                        (fst (run_activation_tests d env tcs db)))"
  proof (intro ballI impI)
    fix row
    assume "row \<in> set (test_runs (snd (run_activation_tests d env tcs db)))"
      and rr: "run_id row = r"
    then obtain row1 where r1: "row = set_aggregates r ?fin row1"
      by (auto simp add: rows)
    with rr have "run_id row1 = r" by (simp add: set_aggregates_run_id)
    then have eqs: "passed_tests row = passed_tests ?fin" "failed_tests row = failed_tests ?fin"
      "total_latency_ms row = total_latency_ms ?fin" "avg_latency_ms row = avg_latency_ms ?fin"
      unfolding r1 by (simp_all add: set_aggregates_fields)
    show "failed_tests row = int (length tcs) - passed_tests row
                \<and> avg_latency_ms row
                    = (if length tcs > 0
                       then of_int (total_latency_ms row) / of_nat (length tcs) else 0)
                \<and> passed_tests row
                    = int (length (filter passed (fst (run_activation_tests d env tcs db))))
                \<and> total_latency_ms row
                    = sum_list (map result_latency
                        (fst (run_activation_tests d env tcs db)))"
      unfolding eqs using f by blast
  qed
qed

theorem finalization_values_witness:
  "fst (initialize_run example_env Activation
          (first_model [runes_case, structure_case, runes_case])
          (length [runes_case, structure_case, runes_case]) empty_database) = Some ''run-uuid''
   \<and> (\<exists>row \<in> set (test_runs (snd (run_activation_tests example_deps example_env
                                      [runes_case, structure_case, runes_case] empty_database))).
         run_id row = ''run-uuid'' \<and> passed_tests row = 2 \<and> failed_tests row = 1
         \<and> total_latency_ms row = 500 \<and> avg_latency_ms row = 500 / 3)"
proof -
  let ?tcs = "[runes_case, structure_case, runes_case]"
  let ?run = "run_activation_tests example_deps example_env ?tcs empty_database"
  have i: "fst (initialize_run example_env Activation (first_model ?tcs) (length ?tcs)
                  empty_database) = Some ''run-uuid''"
    by code_simp
  then have i': "initialize_run example_env Activation (first_model ?tcs) (length ?tcs)
                   empty_database
                 = (Some ''run-uuid'',
                    snd (initialize_run example_env Activation (first_model ?tcs) (length ?tcs)
                           empty_database))"
    by (metis prod.collapse)
  have u: "update_failing example_env \<noteq> Some 0"
    by (simp add: example_env_def)
  have p: "passed (test_skill_activation example_deps (call_of runes_stream) runes_case)"
    by code_simp
  have q: "\<not> passed (test_skill_activation example_deps (call_of failing_stream) structure_case)"
    by code_simp
  have lp: "result_latency (test_skill_activation example_deps (call_of runes_stream) runes_case)
              = 250"
    by code_simp
  have lq: "result_latency
              (test_skill_activation example_deps (call_of failing_stream) structure_case) = 0"
    by code_simp
  have res: "fst ?run
               = [test_skill_activation example_deps (call_of runes_stream) runes_case,
                  test_skill_activation example_deps (call_of failing_stream) structure_case,
                  test_skill_activation example_deps (call_of runes_stream) runes_case]"
    by (simp add: run_activation_tests_results enumerate_eq_zip upt_rec example_env_def)
  note T = finalization_values
             [of ?tcs example_deps example_env None empty_database empty_database
                 "''run-uuid''"
                 "snd (initialize_run example_env Activation (first_model ?tcs) (length ?tcs)
                         empty_database)"]
  from T i' u obtain row where
    row: "row \<in> set (test_runs (snd ?run))" "run_id row = ''run-uuid''"
    by auto
  from T i' u row have
    "failed_tests row = int (length ?tcs) - passed_tests row
     \<and> avg_latency_ms row
         = (if length ?tcs > 0 then of_int (total_latency_ms row) / of_nat (length ?tcs) else 0)
     \<and> passed_tests row = int (length (filter passed (fst ?run)))
     \<and> total_latency_ms row = sum_list (map result_latency (fst ?run))"
    by auto
  then have "passed_tests row = 2 \<and> failed_tests row = 1
         \<and> total_latency_ms row = 500 \<and> avg_latency_ms row = 500 / 3"
    by (simp add: res p q lp lq)
  with row i show ?thesis by blast
qed

section \<open>Degraded mode\<close>

lemma run_quality_tests_results:
  "fst (run_quality_tests d env tcs db)
     = map (\<lambda>(k, tc). test_response_quality d (case_call env k) tc) (enumerate 0 tcs)"
proof -
  obtain rid db1 where i: "initialize_run env Quality (first_model tcs) (length tcs) db = (rid, db1)"
    by (cases "initialize_run env Quality (first_model tcs) (length tcs) db")
  obtain results acc db2 where
    l: "quality_loop d env rid 0 tcs ([], zero_accumulators, db1) = (results, acc, db2)"
    by (cases "quality_loop d env rid 0 tcs ([], zero_accumulators, db1)")
  have "results = map (\<lambda>(k, tc). test_response_quality d (case_call env k) tc) (enumerate 0 tcs)"
    using quality_loop_results [of d env rid 0 tcs "[]" zero_accumulators db1] l by simp
  then show ?thesis
    by (simp add: run_quality_tests_def i l Let_def)
qed

text \<open>
  The list a batch returns depends on the agent calls only: neither the database nor
  the outcome of any storage call changes it.
\<close>

lemma batch_results_ignore_persistence:
  assumes "case_call env = case_call env'"
  shows "fst (run_activation_tests d env atcs db) = fst (run_activation_tests d env' atcs db')"
    and "fst (run_quality_tests d env qtcs db) = fst (run_quality_tests d env' qtcs db')"
  using assms by (simp_all add: run_activation_tests_results run_quality_tests_results)

lemma initialize_run_unbound:
  assumes "fst (initialize_run env kind fm n db) = None"
  shows "initialize_run env kind fm n db = (None, db)"
  using assms
  by (auto simp add: initialize_run_def create_test_run_def Let_def
      split: option.splits prod.splits if_splits
      elim!: run_statements.elims)

lemma activation_loop_unbound:
  "snd (snd (activation_loop d env None i tcs (results, acc, db))) = db"
  by (induction tcs arbitrary: i results acc db) (simp_all add: Let_def)

lemma quality_loop_unbound:
  "snd (snd (quality_loop d env None i tcs (results, acc, db))) = db"
  by (induction tcs arbitrary: i results acc db) (simp_all add: Let_def)

text \<open>
  When the run identifier stays null (the versions could not be stored, or the run
  record could not be created), a batch writes nothing.
\<close>

lemma unbound_run_writes_nothing:
  assumes "fst (initialize_run env Activation (first_model tcs) (length tcs) db) = None"
  shows "snd (run_activation_tests d env tcs db) = db"
proof -
  have i: "initialize_run env Activation (first_model tcs) (length tcs) db = (None, db)"
    using assms by (rule initialize_run_unbound)
  obtain results acc db2 where
    l: "activation_loop d env None 0 tcs ([], zero_accumulators, db) = (results, acc, db2)"
    by (cases "activation_loop d env None 0 tcs ([], zero_accumulators, db)")
  have "db2 = db"
    using activation_loop_unbound [of d env 0 tcs "[]" zero_accumulators db] l by simp
  then show ?thesis
    by (simp add: run_activation_tests_def i l Let_def)
qed

lemma versions_failure_unbound:
  "versions_outcome env = None \<Longrightarrow> fst (initialize_run env kind fm n db) = None"
  by (simp add: initialize_run_def)

lemma create_failure_unbound:
  "failing_statement (create_env env) = Some 0 \<Longrightarrow> fst (initialize_run env kind fm n db) = None"
  by (simp add: initialize_run_def create_test_run_def Let_def split: option.splits)

text \<open>
  Claim C7. A failure at the start of a batch is meant to leave the batch without a run
  identifier, so that nothing is written. When it is the linking of the versions that
  raises, the identifier has been assigned already and the handler (which logs
  \<^verbatim>\<open>Continuing without database storage...\<close>) leaves it bound: the result of every
  case is stored and the run record is updated.
\<close>

theorem link_failure_still_persists:
  "link_raises link_failure_env
   \<and> fst (initialize_run link_failure_env Activation (first_model [runes_case])
            (length [runes_case]) empty_database) = Some ''run-uuid''
   \<and> map row_test_id (activation_results (snd (run_activation_tests example_deps
            link_failure_env [runes_case] empty_database))) = [''activation-runes'']
   \<and> map passed_tests (test_runs (snd (run_activation_tests example_deps
            link_failure_env [runes_case] empty_database))) = [1]"
  by code_simp

section \<open>Stored metrics\<close>

lemma store_activation_result_rows:
  assumes "failing_statement env \<noteq> Some 0"
  shows "activation_results (snd (store_activation_result env rid r qry should src ctx db))
           = activation_results db @ [activation_result_row env rid r qry should src ctx]"
proof -
  have l: "\<And>fl b. activation_results
             (snd (run_statements fl (log_statements env (new_uuid env) Activation (logs r)) b))
           = activation_results b"
    by (rule run_statements_preserves) (auto simp add: log_statements_def)
  show ?thesis
  proof (cases "failing_statement env")
    case None
    then show ?thesis by (simp add: store_activation_result_def l)
  next
    case (Some k)
    with assms obtain j where "k = Suc j" by (cases k) auto
    with Some show ?thesis by (simp add: store_activation_result_def l)
  qed
qed

lemma store_quality_result_rows:
  assumes "failing_statement env \<noteq> Some 0"
  shows "quality_results (snd (store_quality_result env rid r qry skl full src ctx db))
           = quality_results db @ [quality_result_row env rid r qry skl full src ctx]"
proof -
  have l: "\<And>fl b. quality_results
             (snd (run_statements fl
                (map (\<lambda>f. \<lambda>b. b\<lparr>missing_facts_rows := missing_facts_rows b @ [(new_uuid env, f)]\<rparr>)
                   (missing_facts r)
                 @ map (\<lambda>c. \<lambda>b. b\<lparr>forbidden_content_rows :=
                                      forbidden_content_rows b @ [(new_uuid env, c)]\<rparr>)
                   (forbidden_content r)
                 @ log_statements env (new_uuid env) Quality (logs r)) b))
           = quality_results b"
    by (rule run_statements_preserves) (auto simp add: log_statements_def)
  show ?thesis
  proof (cases "failing_statement env")
    case None
    then show ?thesis by (simp add: store_quality_result_def l)
  next
    case (Some k)
    with assms obtain j where "k = Suc j" by (cases k) auto
    with Some show ?thesis by (simp add: store_quality_result_def l)
  qed
qed

lemma zero_metrics_columns:
  assumes "input_tokens m = 0" "output_tokens m = 0" "cache_creation_tokens m = 0"
    "cache_read_tokens m = 0" "or_zero (thinking_tokens m) = 0" "latency_ms m = 0"
    "estimated_cost_usd m = 0"
  shows "activation_result_row env rid (ar\<lparr>result_metrics := Some m\<rparr>) qry should src ctx
           = activation_result_row env rid (ar\<lparr>result_metrics := None\<rparr>) qry should src ctx"
    and "quality_result_row env rid (qr\<lparr>result_metrics := Some m\<rparr>) qry' skl full src ctx
           = quality_result_row env rid (qr\<lparr>result_metrics := None\<rparr>) qry' skl full src ctx"
  using assms
  by (cases "thinking_tokens m";
      simp add: activation_result_row_def quality_result_row_def number_or_null_def)+

text \<open>
  Claim C10. \<^verbatim>\<open>store_activation_result\<close> and \<^verbatim>\<open>store_quality_result\<close> insert
  one row whose metrics columns hold NULL for every metrics field that is 0 (and the
  field's value otherwise), so that storing a result whose metrics are all zero leaves
  the database exactly as storing the same result without metrics does.
\<close>

theorem zero_metrics_stored_as_null:
  "(failing_statement env \<noteq> Some 0
      \<longrightarrow> activation_results (snd (store_activation_result env rid ar qry should src ctx db))
            = activation_results db @ [activation_result_row env rid ar qry should src ctx]
          \<and> quality_results (snd (store_quality_result env rid qr qry' skl full src ctx db))
            = quality_results db @ [quality_result_row env rid qr qry' skl full src ctx])
   \<and> (result_metrics ar = Some m
      \<longrightarrow> row_input_tokens (activation_result_row env rid ar qry should src ctx)
            = (if input_tokens m = 0 then None else Some (input_tokens m))
          \<and> row_output_tokens (activation_result_row env rid ar qry should src ctx)
            = (if output_tokens m = 0 then None else Some (output_tokens m))
          \<and> row_cache_creation_tokens (activation_result_row env rid ar qry should src ctx)
            = (if cache_creation_tokens m = 0 then None else Some (cache_creation_tokens m))
          \<and> row_cache_read_tokens (activation_result_row env rid ar qry should src ctx)
            = (if cache_read_tokens m = 0 then None else Some (cache_read_tokens m))
          \<and> row_thinking_tokens (activation_result_row env rid ar qry should src ctx)
            = (case thinking_tokens m of None \<Rightarrow> None
               | Some n \<Rightarrow> if n = 0 then None else Some n)
          \<and> row_latency_ms (activation_result_row env rid ar qry should src ctx)
            = (if latency_ms m = 0 then None else Some (latency_ms m))
          \<and> row_estimated_cost_usd (activation_result_row env rid ar qry should src ctx)
            = (if estimated_cost_usd m = 0 then None else Some (estimated_cost_usd m)))
   \<and> (result_metrics qr = Some m
      \<longrightarrow> row_input_tokens (quality_result_row env rid qr qry' skl full src ctx)
            = (if input_tokens m = 0 then None else Some (input_tokens m))
          \<and> row_output_tokens (quality_result_row env rid qr qry' skl full src ctx)
            = (if output_tokens m = 0 then None else Some (output_tokens m))
          \<and> row_cache_creation_tokens (quality_result_row env rid qr qry' skl full src ctx)
            = (if cache_creation_tokens m = 0 then None else Some (cache_creation_tokens m))
          \<and> row_cache_read_tokens (quality_result_row env rid qr qry' skl full src ctx)
            = (if cache_read_tokens m = 0 then None else Some (cache_read_tokens m))
          \<and> row_thinking_tokens (quality_result_row env rid qr qry' skl full src ctx)
            = (case thinking_tokens m of None \<Rightarrow> None
               | Some n \<Rightarrow> if n = 0 then None else Some n)
          \<and> row_latency_ms (quality_result_row env rid qr qry' skl full src ctx)
            = (if latency_ms m = 0 then None else Some (latency_ms m))
          \<and> row_estimated_cost_usd (quality_result_row env rid qr qry' skl full src ctx)
            = (if estimated_cost_usd m = 0 then None else Some (estimated_cost_usd m)))
   \<and> (input_tokens z = 0 \<and> output_tokens z = 0 \<and> cache_creation_tokens z = 0
        \<and> cache_read_tokens z = 0 \<and> or_zero (thinking_tokens z) = 0 \<and> latency_ms z = 0
        \<and> estimated_cost_usd z = 0
      \<longrightarrow> store_activation_result env rid (ar\<lparr>result_metrics := Some z\<rparr>) qry should src ctx db
            = store_activation_result env rid (ar\<lparr>result_metrics := None\<rparr>) qry should src ctx db
          \<and> store_quality_result env rid (qr\<lparr>result_metrics := Some z\<rparr>) qry' skl full src ctx db
            = store_quality_result env rid (qr\<lparr>result_metrics := None\<rparr>) qry' skl full src ctx db)"
proof (intro conjI impI)
  assume f: "failing_statement env \<noteq> Some 0"
  show "activation_results (snd (store_activation_result env rid ar qry should src ctx db))
            = activation_results db @ [activation_result_row env rid ar qry should src ctx]"
    by (rule store_activation_result_rows [OF f])
  show "quality_results (snd (store_quality_result env rid qr qry' skl full src ctx db))
            = quality_results db @ [quality_result_row env rid qr qry' skl full src ctx]"
    by (rule store_quality_result_rows [OF f])
next
  assume z: "input_tokens z = 0 \<and> output_tokens z = 0 \<and> cache_creation_tokens z = 0
        \<and> cache_read_tokens z = 0 \<and> or_zero (thinking_tokens z) = 0 \<and> latency_ms z = 0
        \<and> estimated_cost_usd z = 0"
  then have a: "activation_result_row env rid (ar\<lparr>result_metrics := Some z\<rparr>) qry should src ctx
           = activation_result_row env rid (ar\<lparr>result_metrics := None\<rparr>) qry should src ctx"
    by (intro zero_metrics_columns(1)) simp_all
  from z have q: "quality_result_row env rid (qr\<lparr>result_metrics := Some z\<rparr>) qry' skl full src ctx
           = quality_result_row env rid (qr\<lparr>result_metrics := None\<rparr>) qry' skl full src ctx"
    by (intro zero_metrics_columns(2)) simp_all
  show "store_activation_result env rid (ar\<lparr>result_metrics := Some z\<rparr>) qry should src ctx db
            = store_activation_result env rid (ar\<lparr>result_metrics := None\<rparr>) qry should src ctx db"
    by (simp add: store_activation_result_def a)
  show "store_quality_result env rid (qr\<lparr>result_metrics := Some z\<rparr>) qry' skl full src ctx db
            = store_quality_result env rid (qr\<lparr>result_metrics := None\<rparr>) qry' skl full src ctx db"
    by (simp add: store_quality_result_def q)
qed (auto simp add: activation_result_row_def quality_result_row_def number_or_null_def
       split: option.splits)

theorem zero_metrics_stored_as_null_witness:
  "failing_statement quiet_store \<noteq> Some 0
   \<and> result_metrics (test_skill_activation example_deps silent_call runes_case)
       = Some \<lparr>input_tokens = 0, output_tokens = 0, cache_creation_tokens = 0,
               cache_read_tokens = 0, thinking_tokens = Some 0, total_tokens = 0,
               latency_ms = 0, estimated_cost_usd = 0\<rparr>
   \<and> map row_input_tokens (activation_results (snd (store_activation_result quiet_store
          ''run-uuid'' (test_skill_activation example_deps silent_call runes_case)
          (Some (query runes_case)) (Some True) None None empty_database))) = [None]
   \<and> map row_latency_ms (activation_results (snd (store_activation_result quiet_store
          ''run-uuid'' (test_skill_activation example_deps silent_call runes_case)
          (Some (query runes_case)) (Some True) None None empty_database))) = [None]
   \<and> map row_estimated_cost_usd (activation_results (snd (store_activation_result quiet_store
          ''run-uuid'' (test_skill_activation example_deps silent_call runes_case)
          (Some (query runes_case)) (Some True) None None empty_database))) = [None]"
proof -
  have f: "failing_statement quiet_store \<noteq> Some 0"
    by (simp add: quiet_store_def)
  have m: "result_metrics (test_skill_activation example_deps silent_call runes_case)
       = Some \<lparr>input_tokens = 0, output_tokens = 0, cache_creation_tokens = 0,
               cache_read_tokens = 0, thinking_tokens = Some 0, total_tokens = 0,
               latency_ms = 0, estimated_cost_usd = 0\<rparr>"
    by code_simp
  have e: "activation_results empty_database = []"
    by (simp add: empty_database_def)
  show ?thesis
    using f m e
      zero_metrics_stored_as_null
        [of quiet_store "''run-uuid''"
            "test_skill_activation example_deps silent_call runes_case"
            "Some (query runes_case)" "Some True" None None empty_database
            _ _ _ _
            "\<lparr>input_tokens = 0, output_tokens = 0, cache_creation_tokens = 0,
               cache_read_tokens = 0, thinking_tokens = Some 0, total_tokens = 0,
               latency_ms = 0, estimated_cost_usd = 0\<rparr>"]
    by simp
qed

end
